theory Spec2Isabelle
  imports Complex_Main
begin

section \<open>Python and pandas values\<close>

text \<open>
  The dashboard (\<^verbatim>\<open>app.py\<close>) works on pandas tables read from a workbook. This
  section fixes the values the model computes with.

  A Python \<^verbatim>\<open>str\<close> is an Isabelle \<open>string\<close> holding its UTF-8 bytes: a character of
  the ASCII range is one byte, any other character is a sequence of two to four bytes,
  each of them above \<open>0x7F\<close>.
\<close>

datatype py_error = TypeError | ValueError | OverflowError

text \<open>
  A cell of a table: a string, an integer, a float (a finite double, by its exact
  value), a boolean, a \<^verbatim>\<open>Timestamp\<close> (an instant, counted in nanoseconds), or one of
  the three nulls of pandas: \<^verbatim>\<open>NaN\<close>, \<^verbatim>\<open>None\<close> and \<^verbatim>\<open>NaT\<close>.
\<close>

datatype cell =
    CStr string
  | CInt int
  | CFloat rat
  | CBool bool
  | CDate int
  | CNaN
  | CNone
  | CNaT

text \<open>
  The result of Python's \<^verbatim>\<open>float(...)\<close>: a double, which may be infinite or NaN
  (\<^verbatim>\<open>float("inf")\<close>, \<^verbatim>\<open>float("nan")\<close>). A finite double is carried by its exact value.
  The rounding of a difference is not modelled: under IEEE 754 the rounded difference
  of two doubles has the sign of the exact one, and the code only reads that sign.
\<close>

datatype pyfloat = Fin rat | PInf | NInf | FNaN

fun fsub :: "pyfloat \<Rightarrow> pyfloat \<Rightarrow> pyfloat" where
  "fsub FNaN _ = FNaN"
| "fsub _ FNaN = FNaN"
| "fsub (Fin a) (Fin b) = Fin (a - b)"
| "fsub (Fin _) PInf = NInf"
| "fsub (Fin _) NInf = PInf"
| "fsub PInf PInf = FNaN"
| "fsub PInf _ = PInf"
| "fsub NInf NInf = FNaN"
| "fsub NInf _ = NInf"

fun fgt0 :: "pyfloat \<Rightarrow> bool" where
  "fgt0 (Fin a) = (0 < a)"
| "fgt0 PInf = True"
| "fgt0 NInf = False"
| "fgt0 FNaN = False"

text \<open>
  The functions of Python and pandas that the code calls and whose results depend on
  formats this development does not fix. They are parameters of the model, and every
  theorem holds for all of them.
   \<^item> \<open>str_float\<close>, \<open>str_date\<close>: \<^verbatim>\<open>str(x)\<close> of a float and of a \<^verbatim>\<open>Timestamp\<close>;
   \<^item> \<open>float_of_str\<close>: \<^verbatim>\<open>float(s)\<close> of a string, \<open>None\<close> when it raises \<^verbatim>\<open>ValueError\<close>;
   \<^item> \<open>float_of_int\<close>: \<^verbatim>\<open>float(n)\<close> of an integer (the nearest double), \<open>None\<close> when it
     raises \<^verbatim>\<open>OverflowError\<close>;
   \<^item> \<open>to_datetime\<close>: \<^verbatim>\<open>pd.to_datetime(s, dayfirst=b, errors='coerce')\<close> of a scalar
     that is not null: a \<^verbatim>\<open>Timestamp\<close> (\<open>Some t\<close>), \<^verbatim>\<open>NaT\<close> (\<open>None\<close>), or an exception;
   \<^item> \<open>astype_str\<close>: \<^verbatim>\<open>Series.astype(str)\<close> on the values of a column without nulls;
   \<^item> \<open>isin\<close>: the test that \<^verbatim>\<open>Series.isin(values)\<close> makes on one cell;
   \<^item> \<open>unicode_lower\<close>: \<^verbatim>\<open>s.lower()\<close> of a string that has a character outside the ASCII
     range, which is the case mapping of the interpreter's Unicode tables.
\<close>

record pylib =
  unicode_lower :: "string \<Rightarrow> string"
  str_float :: "rat \<Rightarrow> string"
  str_date :: "int \<Rightarrow> string"
  float_of_str :: "string \<Rightarrow> pyfloat option"
  float_of_int :: "int \<Rightarrow> pyfloat option"
  to_datetime :: "bool \<Rightarrow> cell \<Rightarrow> py_error + int option"
  astype_str :: "cell list \<Rightarrow> string list"
  isin :: "cell \<Rightarrow> cell list \<Rightarrow> bool"

subsection \<open>\<^verbatim>\<open>str\<close>, \<^verbatim>\<open>lower\<close>, \<^verbatim>\<open>strip\<close>, \<^verbatim>\<open>float\<close>\<close>

definition digit_char :: "nat \<Rightarrow> char" where
  "digit_char d = ''0123456789'' ! d"

fun str_nat :: "nat \<Rightarrow> string" where
  "str_nat n = (if n < 10 then [digit_char n] else str_nat (n div 10) @ [digit_char (n mod 10)])"

declare str_nat.simps [simp del]

definition str_int :: "int \<Rightarrow> string" where
  "str_int i = (if i < 0 then CHR ''-'' # str_nat (nat (- i)) else str_nat (nat i))"

text \<open>\<^verbatim>\<open>str(x)\<close> of a cell.\<close>

fun py_str :: "pylib \<Rightarrow> cell \<Rightarrow> string" where
  "py_str lib (CStr s) = s"
| "py_str lib (CInt i) = str_int i"
| "py_str lib (CFloat r) = str_float lib r"
| "py_str lib (CBool b) = (if b then ''True'' else ''False'')"
| "py_str lib (CDate t) = str_date lib t"
| "py_str lib CNaN = ''nan''"
| "py_str lib CNone = ''None''"
| "py_str lib CNaT = ''NaT''"

definition lower_char :: "char \<Rightarrow> char" where
  "lower_char c =
     (case map_of (zip ''ABCDEFGHIJKLMNOPQRSTUVWXYZ'' ''abcdefghijklmnopqrstuvwxyz'') c of
        Some d \<Rightarrow> d
      | None \<Rightarrow> c)"

text \<open>
  \<^verbatim>\<open>s.lower()\<close>. A string of ASCII characters only (no byte has its top bit set) is
  lowered letter by letter, \<^verbatim>\<open>A\<close> to \<^verbatim>\<open>Z\<close> becoming \<^verbatim>\<open>a\<close> to \<^verbatim>\<open>z\<close>; any other string is
  lowered by the Unicode tables, which lower every cased letter, the ASCII ones among
  them.
\<close>

definition is_ascii :: "string \<Rightarrow> bool" where
  "is_ascii s = list_all (\<lambda>c. \<not> digit7 c) s"

definition py_lower :: "pylib \<Rightarrow> string \<Rightarrow> string" where
  "py_lower lib s = (if is_ascii s then map lower_char s else unicode_lower lib s)"

text \<open>
  The characters of a string, each as its UTF-8 bytes. The first byte of a character
  tells how many bytes it has: \<open>110xxxxx\<close> opens two bytes, \<open>1110xxxx\<close> three and
  \<open>11110xxx\<close> four; an ASCII byte \<open>0xxxxxxx\<close> stands alone.
\<close>

definition utf8_len :: "char \<Rightarrow> nat" where
  "utf8_len c =
     (if \<not> digit7 c \<or> \<not> digit6 c then 1
      else if \<not> digit5 c then 2
      else if \<not> digit4 c then 3
      else 4)"

fun utf8_chars :: "string \<Rightarrow> string list" where
  "utf8_chars [] = []"
| "utf8_chars (c # cs) =
     (c # take (utf8_len c - 1) cs) # utf8_chars (drop (utf8_len c - 1) cs)"

text \<open>
  The characters for which \<^verbatim>\<open>str.isspace\<close> holds, which are those that \<^verbatim>\<open>strip()\<close>
  removes: U+0009 to U+000D, U+001C to U+0020, U+0085, U+00A0, U+1680, U+2000 to U+200A,
  U+2028, U+2029, U+202F, U+205F and U+3000.
\<close>

definition WHITESPACE :: "string list" where
  "WHITESPACE =
     [[CHR 0x09], [CHR 0x0A], [CHR 0x0B], [CHR 0x0C], [CHR 0x0D],
      [CHR 0x1C], [CHR 0x1D], [CHR 0x1E], [CHR 0x1F], [CHR 0x20],
      [CHR 0xC2, CHR 0x85], [CHR 0xC2, CHR 0xA0],
      [CHR 0xE1, CHR 0x9A, CHR 0x80],
      [CHR 0xE2, CHR 0x80, CHR 0x80], [CHR 0xE2, CHR 0x80, CHR 0x81],
      [CHR 0xE2, CHR 0x80, CHR 0x82], [CHR 0xE2, CHR 0x80, CHR 0x83],
      [CHR 0xE2, CHR 0x80, CHR 0x84], [CHR 0xE2, CHR 0x80, CHR 0x85],
      [CHR 0xE2, CHR 0x80, CHR 0x86], [CHR 0xE2, CHR 0x80, CHR 0x87],
      [CHR 0xE2, CHR 0x80, CHR 0x88], [CHR 0xE2, CHR 0x80, CHR 0x89],
      [CHR 0xE2, CHR 0x80, CHR 0x8A],
      [CHR 0xE2, CHR 0x80, CHR 0xA8], [CHR 0xE2, CHR 0x80, CHR 0xA9],
      [CHR 0xE2, CHR 0x80, CHR 0xAF], [CHR 0xE2, CHR 0x81, CHR 0x9F],
      [CHR 0xE3, CHR 0x80, CHR 0x80]]"

definition is_space :: "string \<Rightarrow> bool" where
  "is_space ch \<longleftrightarrow> ch \<in> set WHITESPACE"

text \<open>\<^verbatim>\<open>s.strip()\<close>: the string without its leading and trailing whitespace.\<close>

definition py_strip :: "string \<Rightarrow> string" where
  "py_strip s = concat (rev (dropWhile is_space (rev (dropWhile is_space (utf8_chars s)))))"

text \<open>
  \<^verbatim>\<open>float(x)\<close> of a cell. The code calls it on cells for which \<^verbatim>\<open>pd.notna\<close> holds;
  on \<^verbatim>\<open>None\<close>, \<^verbatim>\<open>NaT\<close> and a \<^verbatim>\<open>Timestamp\<close> it raises \<^verbatim>\<open>TypeError\<close>.
\<close>

fun py_float :: "pylib \<Rightarrow> cell \<Rightarrow> py_error + pyfloat" where
  "py_float lib (CStr s) = (case float_of_str lib s of Some f \<Rightarrow> Inr f | None \<Rightarrow> Inl ValueError)"
| "py_float lib (CInt i) = (case float_of_int lib i of Some f \<Rightarrow> Inr f | None \<Rightarrow> Inl OverflowError)"
| "py_float lib (CFloat r) = Inr (Fin r)"
| "py_float lib (CBool b) = Inr (Fin (if b then 1 else 0))"
| "py_float lib (CDate t) = Inl TypeError"
| "py_float lib CNaN = Inr FNaN"
| "py_float lib CNone = Inl TypeError"
| "py_float lib CNaT = Inl TypeError"

text \<open>\<^verbatim>\<open>pd.isna\<close> and \<^verbatim>\<open>pd.notna\<close> of a scalar.\<close>

fun isna :: "cell \<Rightarrow> bool" where
  "isna CNaN = True"
| "isna CNone = True"
| "isna CNaT = True"
| "isna _ = False"

definition notna :: "cell \<Rightarrow> bool" where
  "notna c = (\<not> isna c)"

subsection \<open>Series and tables\<close>

text \<open>
  A row is the \<^verbatim>\<open>Series\<close> that \<^verbatim>\<open>DataFrame.apply(f, axis=1)\<close> hands to \<open>f\<close>: a finite map
  from column labels to cells. A table has its column labels, in order, and its rows.
  Labels are taken to be distinct; what pandas does with a repeated label is not
  modelled. A row holds the cells of the table: the conversion of integers to floats
  that pandas makes in the rows of a table whose columns are all numeric is not
  modelled (such a table has no status string). Timestamps carry no time zone.
\<close>

type_synonym row = "string \<rightharpoonup> cell"

record dataframe =
  columns :: "string list"
  rows :: "row list"

text \<open>\<^verbatim>\<open>pd.DataFrame()\<close>\<close>

definition empty_df :: dataframe where
  "empty_df = \<lparr>columns = [], rows = []\<rparr>"

text \<open>\<^verbatim>\<open>df.empty\<close>: one of the two axes has length 0.\<close>

definition df_empty :: "dataframe \<Rightarrow> bool" where
  "df_empty df \<longleftrightarrow> columns df = [] \<or> rows df = []"

text \<open>\<^verbatim>\<open>row.get(key, default)\<close>\<close>

definition row_get :: "row \<Rightarrow> string \<Rightarrow> cell \<Rightarrow> cell" where
  "row_get r key dflt = (case r key of Some v \<Rightarrow> v | None \<Rightarrow> dflt)"

text \<open>
  \<^verbatim>\<open>df[col]\<close>, the values of a column. A row of a table has a cell under each of the
  table's labels; where the model is given a row without one, the value is \<^verbatim>\<open>NaN\<close>.
\<close>

definition col_values :: "dataframe \<Rightarrow> string \<Rightarrow> cell list" where
  "col_values df col = map (\<lambda>r. row_get r col CNaN) (rows df)"

text \<open>\<^verbatim>\<open>df[col] = values\<close>: replaces the column, or appends it when the label is new.\<close>

definition set_column :: "dataframe \<Rightarrow> string \<Rightarrow> cell list \<Rightarrow> dataframe" where
  "set_column df col vs =
     \<lparr>columns = (if col \<in> set (columns df) then columns df else columns df @ [col]),
      rows = map (\<lambda>(r, v). r(col \<mapsto> v)) (zip (rows df) vs)\<rparr>"

text \<open>
  The table of the rows that satisfy a test, in their order. The lemmas below write
  the filters of the dashboard in this form.
\<close>

definition filter_rows :: "(row \<Rightarrow> bool) \<Rightarrow> dataframe \<Rightarrow> dataframe" where
  "filter_rows p df = \<lparr>columns = columns df, rows = filter p (rows df)\<rparr>"

text \<open>
  \<^verbatim>\<open>df.rename(columns=m)\<close>: a label in \<open>m\<close> is replaced by its image, the others stay.
\<close>

definition rename_label :: "(string \<rightharpoonup> string) \<Rightarrow> string \<Rightarrow> string" where
  "rename_label m c = (case m c of Some k \<Rightarrow> k | None \<Rightarrow> c)"

definition rename_columns :: "(string \<rightharpoonup> string) \<Rightarrow> dataframe \<Rightarrow> dataframe" where
  "rename_columns m df =
     \<lparr>columns = map (rename_label m) (columns df),
      rows = map (\<lambda>r k. case find (\<lambda>c. rename_label m c = k) (columns df) of
                           Some c \<Rightarrow> r c
                         | None \<Rightarrow> None) (rows df)\<rparr>"

section \<open>Configuration\<close>

text \<open>
  The part of \<^verbatim>\<open>config\<close> that the computation reads. A missing key is the default the
  code gives to \<^verbatim>\<open>get\<close>: the empty list or the empty dictionary; a missing
  \<^verbatim>\<open>date_format\<close> is any string other than the two formats.
\<close>

record config =
  date_format :: string
  pr_open_statuses :: "string list"
  po_open_delivery_statuses :: "string list"
  category_mapping :: "string \<rightharpoonup> string"

text \<open>The sentinel of the column mapper; its dashes are U+2014, here in UTF-8.\<close>

definition NOT_MAPPED :: string where
  "NOT_MAPPED = [CHR 0xE2, CHR 0x80, CHR 0x94] @ '' not mapped '' @ [CHR 0xE2, CHR 0x80, CHR 0x94]"

definition REQUIRED_PRS_FIELDS :: "string list" where
  "REQUIRED_PRS_FIELDS = [''PR_Number'', ''PR_Date'', ''PR_Status'']"

definition OPTIONAL_PRS_FIELDS :: "string list" where
  "OPTIONAL_PRS_FIELDS = [''PR_Amount'', ''Material_Group'', ''Cost_Center'', ''Item_Type'', ''Category'']"

definition REQUIRED_POS_FIELDS :: "string list" where
  "REQUIRED_POS_FIELDS = [''PO_Number'', ''PO_Date'', ''PO_Status'', ''Delivery_Status'']"

definition OPTIONAL_POS_FIELDS :: "string list" where
  "OPTIONAL_POS_FIELDS =
     [''Vendor'', ''PO_Quantity'', ''GRN_Quantity'', ''PR_Number'', ''PR_Line'', ''Category'']"

section \<open>Category derivation\<close>

definition CATEGORIES :: "string list" where
  "CATEGORIES = [''MRO'', ''Services'', ''Capex'', ''PCM'']"

text \<open>
  \<^verbatim>\<open>col and col != "- not mapped -"\<close> for \<^verbatim>\<open>col = mapping.get(field)\<close>: the field has a
  column, which is \<open>Some col\<close>.
\<close>

definition mapped_col :: "(string \<rightharpoonup> string) \<Rightarrow> string \<Rightarrow> string option" where
  "mapped_col mapping field =
     (case mapping field of
        Some col \<Rightarrow> if col \<noteq> [] \<and> col \<noteq> NOT_MAPPED then Some col else None
      | None \<Rightarrow> None)"

text \<open>
  The loop of \<^verbatim>\<open>derive_category\<close> over the key fields; the first field that gives a
  category returns it.
\<close>

fun derive_from_keys ::
  "pylib \<Rightarrow> row \<Rightarrow> (string \<rightharpoonup> string) \<Rightarrow> (string \<rightharpoonup> string) \<Rightarrow> string list \<Rightarrow> string option"
where
  "derive_from_keys lib row mapping cfg_mapping [] = None"
| "derive_from_keys lib row mapping cfg_mapping (key_field # rest) =
     (case mapped_col mapping key_field of
        Some col \<Rightarrow>
          (let key_val = py_strip (py_str lib (row_get row col (CStr ''''))) in
           case cfg_mapping key_val of
             Some mapped_cat \<Rightarrow>
               if mapped_cat \<in> set CATEGORIES then Some mapped_cat
               else derive_from_keys lib row mapping cfg_mapping rest
           | None \<Rightarrow> derive_from_keys lib row mapping cfg_mapping rest)
      | None \<Rightarrow> derive_from_keys lib row mapping cfg_mapping rest)"

text \<open>\<^verbatim>\<open>derive_category(row, mapping, cfg_mapping)\<close>; the result \<open>None\<close> is Python's \<^verbatim>\<open>None\<close>.\<close>

definition derive_category ::
  "pylib \<Rightarrow> row \<Rightarrow> (string \<rightharpoonup> string) \<Rightarrow> (string \<rightharpoonup> string) \<Rightarrow> string option"
where
  "derive_category lib row mapping cfg_mapping =
     (case mapped_col mapping ''Category'' of
        Some cat_col \<Rightarrow>
          (let val = py_strip (py_str lib (row_get row cat_col (CStr ''''))) in
           if val \<in> set CATEGORIES then Some val
           else derive_from_keys lib row mapping cfg_mapping
                  [''Material_Group'', ''Cost_Center'', ''Item_Type''])
      | None \<Rightarrow>
          derive_from_keys lib row mapping cfg_mapping
            [''Material_Group'', ''Cost_Center'', ''Item_Type''])"

section \<open>Metrics: \<^verbatim>\<open>compute_metrics\<close>\<close>

text \<open>A function applied to each value of a column; the first exception ends the pass.\<close>

fun apply_cells :: "('a \<Rightarrow> py_error + 'b) \<Rightarrow> 'a list \<Rightarrow> py_error + 'b list" where
  "apply_cells f [] = Inr []"
| "apply_cells f (c # cs) =
     (case f c of
        Inl e \<Rightarrow> Inl e
      | Inr v \<Rightarrow> (case apply_cells f cs of Inl e \<Rightarrow> Inl e | Inr vs \<Rightarrow> Inr (v # vs)))"

text \<open>A \<^verbatim>\<open>Timestamp\<close> or \<^verbatim>\<open>NaT\<close>, as \<^verbatim>\<open>pd.to_datetime\<close> returns it.\<close>

fun date_cell :: "int option \<Rightarrow> cell" where
  "date_cell (Some t) = CDate t"
| "date_cell None = CNaT"

text \<open>
  \<^verbatim>\<open>parse_date(s)\<close>. Under \<^verbatim>\<open>dd-mm-yyyy\<close> and \<^verbatim>\<open>yyyy-mm-dd\<close> an exception of the first
  call is caught and the value is parsed again without \<^verbatim>\<open>dayfirst\<close>; an exception of
  that second call, and any exception in the last branch, leaves the function.
\<close>

definition parse_date :: "pylib \<Rightarrow> config \<Rightarrow> cell \<Rightarrow> py_error + cell" where
  "parse_date lib cfg s =
     (if isna s then Inr CNaT
      else if date_format cfg = ''dd-mm-yyyy'' then
        (case to_datetime lib True s of
           Inr d \<Rightarrow> Inr (date_cell d)
         | Inl _ \<Rightarrow> map_sum id date_cell (to_datetime lib False s))
      else if date_format cfg = ''yyyy-mm-dd'' then
        (case to_datetime lib False s of
           Inr d \<Rightarrow> Inr (date_cell d)
         | Inl _ \<Rightarrow> map_sum id date_cell (to_datetime lib False s))
      else map_sum id date_cell (to_datetime lib True s))"

text \<open>
  The dictionary \<^verbatim>\<open>m\<close> of \<^verbatim>\<open>unify\<close>, from the mapped columns to the unified names; where
  two fields are mapped to one column the later field stays.
\<close>

definition unify_map :: "(string \<rightharpoonup> string) \<Rightarrow> string list \<Rightarrow> (string \<rightharpoonup> string)" where
  "unify_map mapping field_names =
     fold (\<lambda>k m. case mapped_col mapping k of Some col \<Rightarrow> m(col \<mapsto> k) | None \<Rightarrow> m)
       field_names Map.empty"

text \<open>\<^verbatim>\<open>if col in df.columns: df[col] = df[col].apply(parse_date)\<close>\<close>

definition parse_column :: "pylib \<Rightarrow> config \<Rightarrow> dataframe \<Rightarrow> string \<Rightarrow> py_error + dataframe" where
  "parse_column lib cfg df col =
     (if col \<in> set (columns df) then
        (case apply_cells (parse_date lib cfg) (col_values df col) of
           Inl e \<Rightarrow> Inl e
         | Inr vs \<Rightarrow> Inr (set_column df col vs))
      else Inr df)"

definition unify ::
  "pylib \<Rightarrow> config \<Rightarrow> dataframe \<Rightarrow> (string \<rightharpoonup> string) \<Rightarrow> string list \<Rightarrow> string list
     \<Rightarrow> py_error + dataframe"
where
  "unify lib cfg df mapping required optional =
     (if df_empty df then Inr df
      else
        (let df1 = rename_columns (unify_map mapping (required @ optional)) df in
         case parse_column lib cfg df1 ''PR_Date'' of
           Inl e \<Rightarrow> Inl e
         | Inr df2 \<Rightarrow> parse_column lib cfg df2 ''PO_Date''))"

text \<open>The value that \<^verbatim>\<open>derive_category\<close> leaves in the \<^verbatim>\<open>Category\<close> column.\<close>

fun category_cell :: "string option \<Rightarrow> cell" where
  "category_cell (Some c) = CStr c"
| "category_cell None = CNone"

text \<open>
  \<^verbatim>\<open>if "Category" not in df.columns and not df.empty:
      df["Category"] = df.apply(lambda r: derive_category(r, mapping, cfg_map), axis=1)\<close>
\<close>

definition add_category ::
  "pylib \<Rightarrow> dataframe \<Rightarrow> (string \<rightharpoonup> string) \<Rightarrow> (string \<rightharpoonup> string) \<Rightarrow> dataframe"
where
  "add_category lib df mapping cfg_map =
     (if ''Category'' \<notin> set (columns df) \<and> \<not> df_empty df then
        set_column df ''Category''
          (map (\<lambda>r. category_cell (derive_category lib r mapping cfg_map)) (rows df))
      else df)"

text \<open>The set \<^verbatim>\<open>linked_prs\<close>: the trimmed PR numbers that the PO table refers to.\<close>

definition linked_prs :: "pylib \<Rightarrow> dataframe \<Rightarrow> string set" where
  "linked_prs lib pos =
     (if ''PR_Number'' \<in> set (columns pos) then
        set (map py_strip (astype_str lib (filter notna (col_values pos ''PR_Number''))))
      else {})"

text \<open>
  \<^verbatim>\<open>is_pr_open(row)\<close>; \<open>open_statuses\<close> is the closure's \<^verbatim>\<open>pr_open_statuses\<close> (the configured
  statuses in lower case) and \<open>linked\<close> its \<^verbatim>\<open>linked_prs\<close>.
\<close>

definition is_pr_open :: "pylib \<Rightarrow> string list \<Rightarrow> string set \<Rightarrow> row \<Rightarrow> bool" where
  "is_pr_open lib open_statuses linked row =
     (let status = py_lower lib (py_str lib (row_get row ''PR_Status'' (CStr '''')));
          pr_no = py_strip (py_str lib (row_get row ''PR_Number'' (CStr '''')));
          is_linked = pr_no \<in> linked
      in status \<noteq> ''closed'' \<or> \<not> is_linked \<or> status \<in> set open_statuses)"

text \<open>
  The \<^verbatim>\<open>try\<close> block of \<^verbatim>\<open>is_po_open_delivery\<close>: the value it gives to \<^verbatim>\<open>outstanding\<close>, or
  the exception that \<^verbatim>\<open>float\<close> raises in it.
\<close>

definition outstanding_try :: "pylib \<Rightarrow> cell \<Rightarrow> cell \<Rightarrow> py_error + bool" where
  "outstanding_try lib qty grn =
     (if notna qty \<and> notna grn then
        (case py_float lib qty of
           Inl e \<Rightarrow> Inl e
         | Inr a \<Rightarrow>
             (case py_float lib grn of
                Inl e \<Rightarrow> Inl e
              | Inr b \<Rightarrow> Inr (fgt0 (fsub a b))))
      else Inr False)"

text \<open>The variable \<^verbatim>\<open>outstanding\<close> after the \<^verbatim>\<open>try\<close> and its bare \<^verbatim>\<open>except\<close>.\<close>

definition outstanding :: "pylib \<Rightarrow> row \<Rightarrow> bool" where
  "outstanding lib row =
     (let qty = (if row ''PO_Quantity'' \<noteq> None then row_get row ''PO_Quantity'' CNone else CNone);
          grn = (if row ''GRN_Quantity'' \<noteq> None then row_get row ''GRN_Quantity'' CNone else CNone)
      in case outstanding_try lib qty grn of
           Inl _ \<Rightarrow> False
         | Inr b \<Rightarrow> b)"

text \<open>\<^verbatim>\<open>is_po_open_delivery(row)\<close>; \<open>open_statuses\<close> is the closure's \<^verbatim>\<open>po_open_statuses\<close>.\<close>

definition is_po_open_delivery :: "pylib \<Rightarrow> string list \<Rightarrow> row \<Rightarrow> bool" where
  "is_po_open_delivery lib open_statuses row =
     (let status = py_lower lib (py_str lib (row_get row ''Delivery_Status'' (CStr '''')))
      in outstanding lib row \<or> status \<in> set open_statuses \<or> status = ''open'')"

text \<open>\<^verbatim>\<open>int(df[col].sum())\<close> for a column of booleans.\<close>

definition bool_sum :: "dataframe \<Rightarrow> string \<Rightarrow> int" where
  "bool_sum df col = int (length (filter (\<lambda>c. c = CBool True) (col_values df col)))"

type_synonym metrics = "string \<rightharpoonup> int"

text \<open>
  \<^verbatim>\<open>compute_metrics(prs_df, pos_df, pr_map, po_map, cfg)\<close>. The function reads the date
  format from its argument \<open>cfg\<close> and the statuses and the category mapping from the
  global \<open>config\<close>; an absent table is \<open>None\<close>. The result is the triple the function
  returns, or the exception that leaves it.
\<close>

definition compute_metrics ::
  "pylib \<Rightarrow> config \<Rightarrow> dataframe option \<Rightarrow> dataframe option
     \<Rightarrow> (string \<rightharpoonup> string) \<Rightarrow> (string \<rightharpoonup> string) \<Rightarrow> config
     \<Rightarrow> py_error + (metrics \<times> dataframe \<times> dataframe)"
where
  "compute_metrics lib config prs_df pos_df pr_map po_map cfg =
     (if prs_df = None \<and> pos_df = None then Inr (Map.empty, empty_df, empty_df)
      else
        case unify lib cfg (case prs_df of Some d \<Rightarrow> d | None \<Rightarrow> empty_df)
               pr_map REQUIRED_PRS_FIELDS OPTIONAL_PRS_FIELDS of
          Inl e \<Rightarrow> Inl e
        | Inr prs0 \<Rightarrow>
       (case unify lib cfg (case pos_df of Some d \<Rightarrow> d | None \<Rightarrow> empty_df)
               po_map REQUIRED_POS_FIELDS OPTIONAL_POS_FIELDS of
          Inl e \<Rightarrow> Inl e
        | Inr pos0 \<Rightarrow>
       (let cfg_map = category_mapping config;
            prs1 = add_category lib prs0 pr_map cfg_map;
            pos1 = add_category lib pos0 po_map cfg_map;
            linked = linked_prs lib pos1;
            pr_open = map (py_lower lib) (pr_open_statuses config);
            prs2 = set_column prs1 ''Is_Open_PR''
                     (map (\<lambda>r. CBool (is_pr_open lib pr_open linked r)) (rows prs1));
            po_open = map (py_lower lib) (po_open_delivery_statuses config);
            pos2 = (if \<not> df_empty pos1 then
                      set_column pos1 ''Is_Open_Delivery_PO''
                        (map (\<lambda>r. CBool (is_po_open_delivery lib po_open r)) (rows pos1))
                    else pos1);
            total_prs = (if \<not> df_empty prs2 then int (length (rows prs2)) else 0);
            total_pos = (if \<not> df_empty pos2 then int (length (rows pos2)) else 0);
            open_prs = (if ''Is_Open_PR'' \<in> set (columns prs2)
                        then bool_sum prs2 ''Is_Open_PR'' else 0);
            open_delivery_pos = (if ''Is_Open_Delivery_PO'' \<in> set (columns pos2)
                                 then bool_sum pos2 ''Is_Open_Delivery_PO'' else 0)
        in Inr ([''Total PRs'' \<mapsto> total_prs,
                 ''Total POs'' \<mapsto> total_pos,
                 ''Open PRs'' \<mapsto> open_prs,
                 ''Open Delivery POs'' \<mapsto> open_delivery_pos],
                prs2, pos2))))"

section \<open>Filters of the dashboard page\<close>

text \<open>
  The value of a \<^verbatim>\<open>st.date_input\<close> widget: \<^verbatim>\<open>None\<close>, one date, or a tuple of dates. A
  date stands for the \<^verbatim>\<open>Timestamp\<close> that \<^verbatim>\<open>pd.to_datetime\<close> makes of it.
\<close>

datatype date_input = NoDate | OneDate int | DateTuple "int list"

text \<open>
  \<^verbatim>\<open>(x >= start) & (x <= end)\<close> for one value of the column. A null compares as
  false; a value that is neither a date nor a null cannot be compared with a
  \<^verbatim>\<open>Timestamp\<close>, and pandas raises \<^verbatim>\<open>TypeError\<close>.
\<close>

fun in_range :: "int \<Rightarrow> int \<Rightarrow> cell \<Rightarrow> py_error + bool" where
  "in_range start end' (CDate t) = Inr (t \<ge> start \<and> t \<le> end')"
| "in_range start end' CNaT = Inr False"
| "in_range start end' CNaN = Inr False"
| "in_range start end' CNone = Inr False"
| "in_range start end' _ = Inl TypeError"

text \<open>\<^verbatim>\<open>df[mask]\<close>: the rows at which the mask holds, in their order.\<close>

definition boolean_index :: "dataframe \<Rightarrow> bool list \<Rightarrow> dataframe" where
  "boolean_index df bmask =
     \<lparr>columns = columns df, rows = map fst (filter snd (zip (rows df) bmask))\<rparr>"

text \<open>
  \<^verbatim>\<open>within_date(df, col, rng)\<close>. For a single date \<^verbatim>\<open>not rng\<close> is false and \<^verbatim>\<open>len(rng)\<close>
  raises \<^verbatim>\<open>TypeError\<close>.
\<close>

definition within_date :: "dataframe \<Rightarrow> string \<Rightarrow> date_input \<Rightarrow> py_error + dataframe" where
  "within_date df col rng =
     (if df_empty df \<or> col \<notin> set (columns df) then Inr df
      else
        case rng of
          NoDate \<Rightarrow> Inr df
        | OneDate d \<Rightarrow> Inl TypeError
        | DateTuple ds \<Rightarrow>
            if ds = [] \<or> length ds \<noteq> 2 then Inr df
            else
              (let start = ds ! 0; end' = ds ! 1 in
               case apply_cells (in_range start end') (col_values df col) of
                 Inl e \<Rightarrow> Inl e
               | Inr bmask \<Rightarrow> Inr (boolean_index df bmask)))"

text \<open>\<^verbatim>\<open>df[df[col].isin(values)]\<close>\<close>

definition isin_filter :: "pylib \<Rightarrow> dataframe \<Rightarrow> string \<Rightarrow> cell list \<Rightarrow> dataframe" where
  "isin_filter lib df col vals =
     boolean_index df (map (\<lambda>c. isin lib c vals) (col_values df col))"

text \<open>
  The category filter of one table:
  \<^verbatim>\<open>if categories_filter:
      df = df[df['Category'].isin(categories_filter)] if 'Category' in df.columns else df\<close>
\<close>

definition category_filter :: "pylib \<Rightarrow> string list \<Rightarrow> dataframe \<Rightarrow> dataframe" where
  "category_filter lib categories_filter df =
     (if categories_filter \<noteq> [] then
        (if ''Category'' \<in> set (columns df)
         then isin_filter lib df ''Category'' (map CStr categories_filter)
         else df)
      else df)"

text \<open>
  \<^verbatim>\<open>if values and col in df.columns: df = df[df[col].isin(values)]\<close>, the form of the
  vendor, buyer and status filters.
\<close>

definition member_filter :: "pylib \<Rightarrow> cell list \<Rightarrow> string \<Rightarrow> dataframe \<Rightarrow> dataframe" where
  "member_filter lib vals col df =
     (if vals \<noteq> [] \<and> col \<in> set (columns df) then isin_filter lib df col vals else df)"

text \<open>
  The block "Apply filters" of the dashboard page, from the two annotated tables and
  the values of the widgets to \<^verbatim>\<open>prs_f\<close> and \<^verbatim>\<open>pos_f\<close>.
\<close>

definition apply_filters ::
  "pylib \<Rightarrow> dataframe \<Rightarrow> dataframe \<Rightarrow> date_input \<Rightarrow> date_input \<Rightarrow> string list
     \<Rightarrow> cell list \<Rightarrow> cell list \<Rightarrow> cell list \<Rightarrow> cell list
     \<Rightarrow> py_error + (dataframe \<times> dataframe)"
where
  "apply_filters lib prs pos pr_date_rng po_date_rng categories_filter
       vendor_filter buyer_filter status_filter_pr status_filter_po =
     (case within_date prs ''PR_Date'' pr_date_rng of
        Inl e \<Rightarrow> Inl e
      | Inr prs_f0 \<Rightarrow>
     (case within_date pos ''PO_Date'' po_date_rng of
        Inl e \<Rightarrow> Inl e
      | Inr pos_f0 \<Rightarrow>
     (let prs_f1 = category_filter lib categories_filter prs_f0;
          pos_f1 = category_filter lib categories_filter pos_f0;
          pos_f2 = member_filter lib vendor_filter ''Vendor'' pos_f1;
          prs_f2 = member_filter lib buyer_filter ''Buyer'' prs_f1;
          prs_f3 = member_filter lib status_filter_pr ''PR_Status'' prs_f2;
          pos_f3 = member_filter lib status_filter_po ''PO_Status'' pos_f2
      in Inr (prs_f3, pos_f3))))"

text \<open>
  \<^verbatim>\<open>metrics_f.get(key, 0)\<close>, the way the dashboard page reads a count for its KPI
  tiles.
\<close>

definition metrics_get :: "metrics \<Rightarrow> string \<Rightarrow> int" where
  "metrics_get m key = (case m key of Some v \<Rightarrow> v | None \<Rightarrow> 0)"

text \<open>
  The page filters by date first and by category second. The first definition below
  is that order, the second the opposite order, with the same two functions.
\<close>

definition date_then_category ::
  "pylib \<Rightarrow> string list \<Rightarrow> string \<Rightarrow> date_input \<Rightarrow> dataframe \<Rightarrow> py_error + dataframe"
where
  "date_then_category lib categories_filter col rng df =
     (case within_date df col rng of
        Inl e \<Rightarrow> Inl e
      | Inr df_f \<Rightarrow> Inr (category_filter lib categories_filter df_f))"

definition category_then_date ::
  "pylib \<Rightarrow> string list \<Rightarrow> string \<Rightarrow> date_input \<Rightarrow> dataframe \<Rightarrow> py_error + dataframe"
where
  "category_then_date lib categories_filter col rng df =
     within_date (category_filter lib categories_filter df) col rng"

section \<open>The tier policy of the specification\<close>

text \<open>
  The category policy as the specification words it, to be compared with
  \<open>derive_category\<close>: each tier gives a label or nothing, and the first tier that gives
  a label decides.
\<close>

definition trimmed :: "pylib \<Rightarrow> row \<Rightarrow> string \<Rightarrow> string" where
  "trimmed lib row col = py_strip (py_str lib (row_get row col (CStr '''')))"

text \<open>Tier 1: the explicit category column is mapped and holds one of the four labels.\<close>

definition explicit_label :: "pylib \<Rightarrow> row \<Rightarrow> (string \<rightharpoonup> string) \<Rightarrow> string option" where
  "explicit_label lib row mapping =
     (case mapped_col mapping ''Category'' of
        None \<Rightarrow> None
      | Some col \<Rightarrow>
          if trimmed lib row col \<in> set CATEGORIES then Some (trimmed lib row col) else None)"

text \<open>
  Tier 2 for one key field: the field is mapped and its trimmed value is a key of the
  lookup table whose value is one of the four labels.
\<close>

definition lookup_label ::
  "pylib \<Rightarrow> row \<Rightarrow> (string \<rightharpoonup> string) \<Rightarrow> (string \<rightharpoonup> string) \<Rightarrow> string \<Rightarrow> string option"
where
  "lookup_label lib row mapping table field =
     (case mapped_col mapping field of
        None \<Rightarrow> None
      | Some col \<Rightarrow>
          (case table (trimmed lib row col) of
             None \<Rightarrow> None
           | Some label \<Rightarrow> if label \<in> set CATEGORIES then Some label else None))"

definition first_label :: "string option list \<Rightarrow> string option" where
  "first_label tiers = (case filter (\<lambda>t. t \<noteq> None) tiers of [] \<Rightarrow> None | t # _ \<Rightarrow> t)"

definition category_by_tiers ::
  "pylib \<Rightarrow> row \<Rightarrow> (string \<rightharpoonup> string) \<Rightarrow> (string \<rightharpoonup> string) \<Rightarrow> string option"
where
  "category_by_tiers lib row mapping table =
     (case explicit_label lib row mapping of
        Some label \<Rightarrow> Some label
      | None \<Rightarrow>
          first_label (map (lookup_label lib row mapping table)
            [''Material_Group'', ''Cost_Center'', ''Item_Type'']))"

section \<open>Tables whose date column can be compared\<close>

text \<open>
  \<open>date_typed df col\<close>: if the table has the column, each of its values is a
  \<^verbatim>\<open>Timestamp\<close> or a null. \<open>date_keep\<close> is the test of \<^verbatim>\<open>within_date\<close> on such a value,
  and \<open>in_dates\<close> the rows that a widget value keeps.
\<close>

fun date_or_null :: "cell \<Rightarrow> bool" where
  "date_or_null (CDate t) = True"
| "date_or_null CNaT = True"
| "date_or_null CNaN = True"
| "date_or_null CNone = True"
| "date_or_null _ = False"

definition date_typed :: "dataframe \<Rightarrow> string \<Rightarrow> bool" where
  "date_typed df col \<longleftrightarrow>
     (col \<in> set (columns df) \<longrightarrow> (\<forall>r \<in> set (rows df). date_or_null (row_get r col CNaN)))"

fun date_keep :: "int \<Rightarrow> int \<Rightarrow> cell \<Rightarrow> bool" where
  "date_keep s e (CDate t) = (s \<le> t \<and> t \<le> e)"
| "date_keep s e _ = False"

fun in_dates :: "date_input \<Rightarrow> cell \<Rightarrow> bool" where
  "in_dates (DateTuple [s, e]) c = date_keep s e c"
| "in_dates _ c = True"

section \<open>A workbook to run the model on\<close>

text \<open>
  One instance of the library functions, for the examples below: it converts integers
  exactly, parses no string as a number or as a date, and keeps a \<^verbatim>\<open>Timestamp\<close> as it
  is. Its \<^verbatim>\<open>lower()\<close> is that of text in Latin-1: besides the ASCII letters, the letters
  U+00C0 to U+00DE (in UTF-8 the byte \<open>0xC3\<close> and a byte from \<open>0x80\<close> to \<open>0x9E\<close>, of which
  \<open>0x97\<close> is the sign of multiplication) move up by \<open>0x20\<close>. The theorems do not depend on
  it.
\<close>

fun latin1_lower :: "string \<Rightarrow> string" where
  "latin1_lower (c # d # cs) =
     (if c = CHR 0xC3 \<and> \<not> digit6 d \<and> \<not> digit5 d \<and> d \<noteq> CHR 0x97 \<and> d \<noteq> CHR 0x9F
      then c # Char (digit0 d) (digit1 d) (digit2 d) (digit3 d) (digit4 d) True False True
             # latin1_lower cs
      else lower_char c # latin1_lower (d # cs))"
| "latin1_lower cs = map lower_char cs"

definition example_lib :: pylib where
  "example_lib =
     \<lparr>unicode_lower = latin1_lower,
      str_float = (\<lambda>r. ''0.0''),
      str_date = (\<lambda>t. ''1970-01-01 00:00:00''),
      float_of_str = (\<lambda>s. None),
      float_of_int = (\<lambda>i. Some (Fin (of_int i))),
      to_datetime = (\<lambda>dayfirst c. case c of
                        CDate t \<Rightarrow> Inr (Some t)
                      | CBool b \<Rightarrow> Inl TypeError
                      | _ \<Rightarrow> Inr None),
      astype_str = map (\<lambda>c. case c of CStr s \<Rightarrow> s | CInt i \<Rightarrow> str_int i | _ \<Rightarrow> ''''),
      isin = (\<lambda>c vs. c \<in> set vs)\<rparr>"

text \<open>\<^verbatim>\<open>DEFAULT_CONFIG\<close> with one entry in the category mapping.\<close>

definition example_config :: config where
  "example_config =
     \<lparr>date_format = ''auto'',
      pr_open_statuses = [''Open'', ''Pending'', ''In Progress''],
      po_open_delivery_statuses = [''Open'', ''Partial'', ''Delayed''],
      category_mapping = [''STEEL-01'' \<mapsto> ''MRO'']\<rparr>"

text \<open>
  Two cells as a workbook may hold them: a value with a space before it and a no-break
  space (U+00A0) after it.
\<close>

definition padded_pr2 :: string where
  "padded_pr2 = '' PR2'' @ [CHR 0xC2, CHR 0xA0]"

definition padded_capex :: string where
  "padded_capex = '' Capex'' @ [CHR 0xC2, CHR 0xA0]"

text \<open>
  A sheet of two closed requisitions and a sheet of two orders, with the column mappings
  of the two sheets. The first order refers to the second requisition and has received
  40 of 100; the second refers to none and its quantity is not a number.
\<close>

definition prs_sheet :: dataframe where
  "prs_sheet =
     \<lparr>columns = [''PR No'', ''Raised'', ''State'', ''Material_Group''],
      rows = [[''PR No'' \<mapsto> CStr ''PR1'', ''Raised'' \<mapsto> CDate 20,
               ''State'' \<mapsto> CStr ''Closed'', ''Material_Group'' \<mapsto> CStr ''STEEL-01''],
              [''PR No'' \<mapsto> CStr ''PR2'', ''Raised'' \<mapsto> CDate 30,
               ''State'' \<mapsto> CStr ''Closed'', ''Material_Group'' \<mapsto> CStr ''BOLT'']]\<rparr>"

definition pr_mapping :: "string \<rightharpoonup> string" where
  "pr_mapping = [''PR_Number'' \<mapsto> ''PR No'', ''PR_Date'' \<mapsto> ''Raised'',
                 ''PR_Status'' \<mapsto> ''State'', ''Material_Group'' \<mapsto> ''Material_Group'']"

definition pos_sheet :: dataframe where
  "pos_sheet =
     \<lparr>columns = [''PO No'', ''Ref'', ''Delivery'', ''Qty'', ''Received''],
      rows = [[''PO No'' \<mapsto> CStr ''PO7'', ''Ref'' \<mapsto> CStr padded_pr2,
               ''Delivery'' \<mapsto> CStr ''Closed'', ''Qty'' \<mapsto> CInt 100,
               ''Received'' \<mapsto> CFloat 40],
              [''PO No'' \<mapsto> CStr ''PO8'', ''Ref'' \<mapsto> CNaN,
               ''Delivery'' \<mapsto> CStr ''Closed'', ''Qty'' \<mapsto> CStr ''ten'',
               ''Received'' \<mapsto> CFloat 3]]\<rparr>"

definition po_mapping :: "string \<rightharpoonup> string" where
  "po_mapping = [''PO_Number'' \<mapsto> ''PO No'', ''PR_Number'' \<mapsto> ''Ref'',
                 ''Delivery_Status'' \<mapsto> ''Delivery'', ''PO_Quantity'' \<mapsto> ''Qty'',
                 ''GRN_Quantity'' \<mapsto> ''Received'']"

text \<open>The sheets after \<^verbatim>\<open>unify\<close>.\<close>

definition prs_unified :: dataframe where
  "prs_unified =
     \<lparr>columns = [''PR_Number'', ''PR_Date'', ''PR_Status'', ''Material_Group''],
      rows = [[''PR_Number'' \<mapsto> CStr ''PR1'', ''PR_Date'' \<mapsto> CDate 20,
               ''PR_Status'' \<mapsto> CStr ''Closed'', ''Material_Group'' \<mapsto> CStr ''STEEL-01''],
              [''PR_Number'' \<mapsto> CStr ''PR2'', ''PR_Date'' \<mapsto> CDate 30,
               ''PR_Status'' \<mapsto> CStr ''Closed'', ''Material_Group'' \<mapsto> CStr ''BOLT'']]\<rparr>"

definition pos_unified :: dataframe where
  "pos_unified =
     \<lparr>columns = [''PO_Number'', ''PR_Number'', ''Delivery_Status'', ''PO_Quantity'',
                 ''GRN_Quantity''],
      rows = [[''PO_Number'' \<mapsto> CStr ''PO7'', ''PR_Number'' \<mapsto> CStr padded_pr2,
               ''Delivery_Status'' \<mapsto> CStr ''Closed'', ''PO_Quantity'' \<mapsto> CInt 100,
               ''GRN_Quantity'' \<mapsto> CFloat 40],
              [''PO_Number'' \<mapsto> CStr ''PO8'', ''PR_Number'' \<mapsto> CNaN,
               ''Delivery_Status'' \<mapsto> CStr ''Closed'', ''PO_Quantity'' \<mapsto> CStr ''ten'',
               ''GRN_Quantity'' \<mapsto> CFloat 3]]\<rparr>"

text \<open>The annotated rows and tables that \<^verbatim>\<open>compute_metrics\<close> returns for the two sheets.\<close>

definition pr1_row :: row where
  "pr1_row = [''PR_Number'' \<mapsto> CStr ''PR1'', ''PR_Date'' \<mapsto> CDate 20,
              ''PR_Status'' \<mapsto> CStr ''Closed'', ''Material_Group'' \<mapsto> CStr ''STEEL-01'',
              ''Category'' \<mapsto> CStr ''MRO'', ''Is_Open_PR'' \<mapsto> CBool True]"

definition pr2_row :: row where
  "pr2_row = [''PR_Number'' \<mapsto> CStr ''PR2'', ''PR_Date'' \<mapsto> CDate 30,
              ''PR_Status'' \<mapsto> CStr ''Closed'', ''Material_Group'' \<mapsto> CStr ''BOLT'',
              ''Category'' \<mapsto> CNone, ''Is_Open_PR'' \<mapsto> CBool False]"

definition prs_annotated :: dataframe where
  "prs_annotated =
     \<lparr>columns = [''PR_Number'', ''PR_Date'', ''PR_Status'', ''Material_Group'',
                 ''Category'', ''Is_Open_PR''],
      rows = [pr1_row, pr2_row]\<rparr>"

definition po7_row :: row where
  "po7_row = [''PO_Number'' \<mapsto> CStr ''PO7'', ''PR_Number'' \<mapsto> CStr padded_pr2,
              ''Delivery_Status'' \<mapsto> CStr ''Closed'', ''PO_Quantity'' \<mapsto> CInt 100,
              ''GRN_Quantity'' \<mapsto> CFloat 40, ''Category'' \<mapsto> CNone,
              ''Is_Open_Delivery_PO'' \<mapsto> CBool True]"

definition po8_row :: row where
  "po8_row = [''PO_Number'' \<mapsto> CStr ''PO8'', ''PR_Number'' \<mapsto> CNaN,
              ''Delivery_Status'' \<mapsto> CStr ''Closed'', ''PO_Quantity'' \<mapsto> CStr ''ten'',
              ''GRN_Quantity'' \<mapsto> CFloat 3, ''Category'' \<mapsto> CNone,
              ''Is_Open_Delivery_PO'' \<mapsto> CBool False]"

text \<open>
  Two more order rows: one with negative quantities, of which the ordered one is the
  larger, and one that is fully received.
\<close>

definition po_row_negative :: row where
  "po_row_negative = [''PO_Number'' \<mapsto> CStr ''PO9'', ''Delivery_Status'' \<mapsto> CStr ''Closed'',
                      ''PO_Quantity'' \<mapsto> CInt (- 1), ''GRN_Quantity'' \<mapsto> CInt (- 2)]"

definition po_row_received :: row where
  "po_row_received = [''PO_Number'' \<mapsto> CStr ''PO10'', ''Delivery_Status'' \<mapsto> CStr ''Closed'',
                      ''PO_Quantity'' \<mapsto> CInt 5, ''GRN_Quantity'' \<mapsto> CFloat 5]"

definition pos_annotated :: dataframe where
  "pos_annotated =
     \<lparr>columns = [''PO_Number'', ''PR_Number'', ''Delivery_Status'', ''PO_Quantity'',
                 ''GRN_Quantity'', ''Category'', ''Is_Open_Delivery_PO''],
      rows = [po7_row, po8_row]\<rparr>"

definition kpis :: metrics where
  "kpis = [''Total PRs'' \<mapsto> 2, ''Total POs'' \<mapsto> 2, ''Open PRs'' \<mapsto> 1,
           ''Open Delivery POs'' \<mapsto> 1]"

text \<open>The same requisitions when no order sheet is uploaded: both are open.\<close>

definition pr2_row_open :: row where
  "pr2_row_open = pr2_row(''Is_Open_PR'' \<mapsto> CBool True)"

definition prs_annotated_alone :: dataframe where
  "prs_annotated_alone =
     \<lparr>columns = [''PR_Number'', ''PR_Date'', ''PR_Status'', ''Material_Group'',
                 ''Category'', ''Is_Open_PR''],
      rows = [pr1_row, pr2_row_open]\<rparr>"

definition kpis_alone :: metrics where
  "kpis_alone = [''Total PRs'' \<mapsto> 2, ''Total POs'' \<mapsto> 0, ''Open PRs'' \<mapsto> 2,
                 ''Open Delivery POs'' \<mapsto> 0]"

text \<open>The record of four zero counts.\<close>

definition zero_metrics :: metrics where
  "zero_metrics = [''Total PRs'' \<mapsto> 0, ''Total POs'' \<mapsto> 0, ''Open PRs'' \<mapsto> 0,
                   ''Open Delivery POs'' \<mapsto> 0]"

text \<open>A requisition row without a status.\<close>

definition pr_row_no_status :: row where
  "pr_row_no_status = [''PR_Number'' \<mapsto> CStr ''PR2'']"

text \<open>
  Rows for the category resolver, with a mapping of the category column and of two
  key fields, and a lookup table in which both key values have a label.
\<close>

definition cat_mapping :: "string \<rightharpoonup> string" where
  "cat_mapping = [''Category'' \<mapsto> ''Cat'', ''Material_Group'' \<mapsto> ''MG'',
                  ''Cost_Center'' \<mapsto> ''CC'', ''Item_Type'' \<mapsto> NOT_MAPPED]"

definition cat_table :: "string \<rightharpoonup> string" where
  "cat_table = [''STEEL-01'' \<mapsto> ''MRO'', ''C9'' \<mapsto> ''Services'', ''X'' \<mapsto> ''Steel'']"

definition cat_row_explicit :: row where
  "cat_row_explicit = [''Cat'' \<mapsto> CStr padded_capex, ''MG'' \<mapsto> CStr ''STEEL-01'',
                       ''CC'' \<mapsto> CStr ''C9'']"

definition cat_row_lookup :: row where
  "cat_row_lookup = [''Cat'' \<mapsto> CStr ''Other'', ''MG'' \<mapsto> CStr ''STEEL-01'',
                     ''CC'' \<mapsto> CStr ''C9'']"

definition cat_row_invalid :: row where
  "cat_row_invalid = [''Cat'' \<mapsto> CStr ''Other'', ''MG'' \<mapsto> CStr ''X'']"

section \<open>Lemmas\<close>

subsection \<open>Lists and tables\<close>

lemma mem_map_iff: "x \<in> set (map f xs) \<longleftrightarrow> (\<exists>s \<in> set xs. f s = x)"
  by (induction xs) auto

lemma zip_map_same: "zip xs (map f xs) = map (\<lambda>x. (x, f x)) xs"
  by (induction xs) auto

lemma rows_set_column_map:
  "rows (set_column df c (map f (rows df))) = map (\<lambda>r. r(c \<mapsto> f r)) (rows df)"
  by (simp add: set_column_def zip_map_same)

lemma columns_set_column:
  "set (columns (set_column df c vs)) = insert c (set (columns df))"
  by (auto simp add: set_column_def)

lemma rows_set_column_Nil: "rows df = [] \<Longrightarrow> rows (set_column df c vs) = []"
  by (simp add: set_column_def)

lemma col_values_set_column_other:
  "col \<noteq> c \<Longrightarrow> col_values (set_column df c (map f (rows df))) col = col_values df col"
  by (simp add: col_values_def rows_set_column_map row_get_def comp_def)

lemma filter_rows_simps [simp]:
  "columns (filter_rows p df) = columns df"
  "rows (filter_rows p df) = filter p (rows df)"
  by (simp_all add: filter_rows_def)

lemma boolean_index_map:
  "boolean_index df (map p (col_values df col)) = filter_rows (\<lambda>r. p (row_get r col CNaN)) df"
proof -
  have "map fst (filter snd (zip xs (map (\<lambda>r. p (g r)) xs))) = filter (\<lambda>r. p (g r)) xs"
    for xs :: "row list" and g :: "row \<Rightarrow> cell"
    by (induction xs) auto
  then show ?thesis
    by (simp add: boolean_index_def filter_rows_def col_values_def comp_def)
qed

lemma apply_cells_all:
  "apply_cells f cs = Inr vs \<Longrightarrow> (\<And>c v. f c = Inr v \<Longrightarrow> P v) \<Longrightarrow> \<forall>v \<in> set vs. P v"
  by (induction cs arbitrary: vs) (auto split: sum.splits)

subsection \<open>Strings\<close>

text \<open>
  Cutting a string into its characters loses no byte, so \<^verbatim>\<open>strip()\<close> only removes
  characters from the two ends; the empty string is its own lower case.
\<close>

lemma concat_utf8_chars: "concat (utf8_chars s) = s"
  by (induction s rule: utf8_chars.induct) simp_all

lemma py_lower_Nil: "py_lower lib [] = []"
  by (simp add: py_lower_def is_ascii_def)

subsection \<open>The category resolver\<close>

lemma derive_from_keys_range:
  "derive_from_keys lib row mapping cfg_mapping ks = Some c \<Longrightarrow> c \<in> set CATEGORIES"
  by (induction ks) (auto simp add: Let_def split: option.splits if_splits)

lemma derive_category_in_CATEGORIES:
  "derive_category lib row mapping cfg_mapping = Some c \<Longrightarrow> c \<in> set CATEGORIES"
  by (auto simp add: derive_category_def Let_def split: option.splits if_splits
      dest: derive_from_keys_range)

lemma derive_from_keys_first:
  "derive_from_keys lib row mapping table ks =
     first_label (map (lookup_label lib row mapping table) ks)"
  by (induction ks)
     (auto simp add: first_label_def lookup_label_def trimmed_def Let_def split: option.splits)

subsection \<open>The two classifiers\<close>

lemma is_pr_open_unlinked:
  "py_strip (py_str lib (row_get row ''PR_Number'' (CStr ''''))) \<notin> linked
     \<Longrightarrow> is_pr_open lib open_statuses linked row"
  by (simp add: is_pr_open_def)

lemma is_pr_open_closed_linked:
  assumes "py_lower lib (py_str lib (row_get row ''PR_Status'' (CStr ''''))) = ''closed''"
      and "py_strip (py_str lib (row_get row ''PR_Number'' (CStr ''''))) \<in> linked"
  shows "is_pr_open lib (map (py_lower lib) statuses) linked row
         \<longleftrightarrow> (\<exists>s \<in> set statuses.
                py_lower lib s = py_lower lib (py_str lib (row_get row ''PR_Status'' (CStr ''''))))"
proof -
  let ?status = "py_lower lib (py_str lib (row_get row ''PR_Status'' (CStr '''')))"
  have "is_pr_open lib (map (py_lower lib) statuses) linked row
        \<longleftrightarrow> ?status \<in> set (map (py_lower lib) statuses)"
    using assms by (simp add: is_pr_open_def Let_def)
  also have "\<dots> \<longleftrightarrow> (\<exists>s \<in> set statuses. py_lower lib s = ?status)"
    by (rule mem_map_iff)
  finally show ?thesis .
qed

lemma is_po_open_delivery_upd:
  "k \<noteq> ''PO_Quantity'' \<Longrightarrow> k \<noteq> ''GRN_Quantity'' \<Longrightarrow> k \<noteq> ''Delivery_Status''
     \<Longrightarrow> is_po_open_delivery lib open_statuses (r(k \<mapsto> v))
         = is_po_open_delivery lib open_statuses r"
  by (simp add: is_po_open_delivery_def outstanding_def row_get_def)

lemma is_pr_open_upd:
  "k \<noteq> ''PR_Status'' \<Longrightarrow> k \<noteq> ''PR_Number''
     \<Longrightarrow> is_pr_open lib open_statuses linked (r(k \<mapsto> v)) = is_pr_open lib open_statuses linked r"
  by (simp add: is_pr_open_def row_get_def)

lemma outstanding_eq:
  "outstanding lib row =
     (case outstanding_try lib (row_get row ''PO_Quantity'' CNone)
             (row_get row ''GRN_Quantity'' CNone) of
        Inl _ \<Rightarrow> False
      | Inr b \<Rightarrow> b)"
  by (simp add: outstanding_def row_get_def Let_def split: option.splits)

lemma outstanding_absent:
  "row ''PO_Quantity'' = None \<or> row ''GRN_Quantity'' = None \<Longrightarrow> \<not> outstanding lib row"
  by (auto simp add: outstanding_eq outstanding_try_def row_get_def notna_def)

lemma linked_prs_set_column:
  "c \<noteq> ''PR_Number'' \<Longrightarrow> linked_prs lib (set_column df c (map f (rows df))) = linked_prs lib df"
  by (simp add: linked_prs_def columns_set_column col_values_set_column_other)

subsection \<open>The result of \<open>compute_metrics\<close>\<close>

lemma compute_metrics_Inr:
  assumes "compute_metrics lib config prs_df pos_df pr_map po_map cfg = Inr (m, prs, pos)"
  shows "(prs_df = None \<and> pos_df = None \<and> prs = empty_df \<and> pos = empty_df \<and> m = Map.empty)
       \<or> (\<exists>prs0 pos0 prs1 pos1.
            unify lib cfg (case prs_df of Some d \<Rightarrow> d | None \<Rightarrow> empty_df)
              pr_map REQUIRED_PRS_FIELDS OPTIONAL_PRS_FIELDS = Inr prs0
          \<and> unify lib cfg (case pos_df of Some d \<Rightarrow> d | None \<Rightarrow> empty_df)
              po_map REQUIRED_POS_FIELDS OPTIONAL_POS_FIELDS = Inr pos0
          \<and> prs1 = add_category lib prs0 pr_map (category_mapping config)
          \<and> pos1 = add_category lib pos0 po_map (category_mapping config)
          \<and> prs = set_column prs1 ''Is_Open_PR''
                    (map (\<lambda>r. CBool (is_pr_open lib (map (py_lower lib) (pr_open_statuses config))
                                       (linked_prs lib pos1) r)) (rows prs1))
          \<and> pos = (if \<not> df_empty pos1 then
                      set_column pos1 ''Is_Open_Delivery_PO''
                        (map (\<lambda>r. CBool (is_po_open_delivery lib
                                (map (py_lower lib) (po_open_delivery_statuses config)) r)) (rows pos1))
                    else pos1))"
  using assms
  by (auto simp add: compute_metrics_def Let_def split: if_splits sum.splits)

text \<open>
  The flag of each row of the annotated PR table is the classifier's verdict on that
  row, with the linked set of the annotated PO table.
\<close>

lemma compute_metrics_Is_Open_PR:
  assumes "compute_metrics lib config prs_df pos_df pr_map po_map cfg = Inr (m, prs, pos)"
      and "r \<in> set (rows prs)"
  shows "r ''Is_Open_PR'' =
           Some (CBool (is_pr_open lib (map (py_lower lib) (pr_open_statuses config))
                          (linked_prs lib pos) r))"
  using compute_metrics_Inr [OF assms(1)]
proof (elim disjE exE conjE)
  assume "prs = empty_df"
  with assms(2) show ?thesis by (simp add: empty_df_def)
next
  fix prs0 pos0 prs1 pos1
  assume pos: "pos = (if \<not> df_empty pos1 then
                      set_column pos1 ''Is_Open_Delivery_PO''
                        (map (\<lambda>r. CBool (is_po_open_delivery lib
                                (map (py_lower lib) (po_open_delivery_statuses config)) r)) (rows pos1))
                    else pos1)"
    and prs: "prs = set_column prs1 ''Is_Open_PR''
                    (map (\<lambda>r. CBool (is_pr_open lib (map (py_lower lib) (pr_open_statuses config))
                                       (linked_prs lib pos1) r)) (rows prs1))"
  from pos have l: "linked_prs lib pos = linked_prs lib pos1"
    by (simp add: linked_prs_set_column)
  from assms(2) obtain r1 where r: "r = r1(''Is_Open_PR'' \<mapsto>
      CBool (is_pr_open lib (map (py_lower lib) (pr_open_statuses config)) (linked_prs lib pos1) r1))"
    unfolding prs rows_set_column_map by auto
  show ?thesis
    unfolding l by (subst (1 2) r) (simp add: is_pr_open_upd)
qed

text \<open>
  The same for the PO table, when it has a column: the flag of each row is the verdict
  of the delivery classifier on that row.
\<close>

lemma compute_metrics_Is_Open_Delivery_PO:
  assumes "compute_metrics lib config prs_df pos_df pr_map po_map cfg = Inr (m, prs, pos)"
      and "r \<in> set (rows pos)" and "columns pos \<noteq> []"
  shows "r ''Is_Open_Delivery_PO'' =
           Some (CBool (is_po_open_delivery lib
                          (map (py_lower lib) (po_open_delivery_statuses config)) r))"
  using compute_metrics_Inr [OF assms(1)]
proof (elim disjE exE conjE)
  assume "pos = empty_df"
  with assms(2) show ?thesis by (simp add: empty_df_def)
next
  fix prs0 pos0 prs1 pos1
  assume pos: "pos = (if \<not> df_empty pos1 then
                      set_column pos1 ''Is_Open_Delivery_PO''
                        (map (\<lambda>r. CBool (is_po_open_delivery lib
                                (map (py_lower lib) (po_open_delivery_statuses config)) r)) (rows pos1))
                    else pos1)"
  have ne: "\<not> df_empty pos1"
  proof
    assume e: "df_empty pos1"
    with pos have "pos = pos1" by simp
    with e assms(2,3) show False by (auto simp add: df_empty_def)
  qed
  with pos assms(2) obtain r1 where r: "r = r1(''Is_Open_Delivery_PO'' \<mapsto>
      CBool (is_po_open_delivery lib (map (py_lower lib) (po_open_delivery_statuses config)) r1))"
    by (auto simp add: rows_set_column_map)
  show ?thesis
    by (subst (1 2) r) (simp add: is_po_open_delivery_upd)
qed

lemma unify_no_rows: "rows df = [] \<Longrightarrow> unify lib cfg df mapping req opt = Inr df"
  by (simp add: unify_def df_empty_def)

lemma add_category_no_rows: "rows df = [] \<Longrightarrow> add_category lib df mapping cm = df"
  by (simp add: add_category_def df_empty_def)

lemma bool_sum_no_rows: "rows df = [] \<Longrightarrow> bool_sum df c = 0"
  by (simp add: bool_sum_def col_values_def)

lemma compute_metrics_absent:
  "compute_metrics lib config None None pr_map po_map cfg = Inr (Map.empty, empty_df, empty_df)"
  by (simp add: compute_metrics_def)

lemma compute_metrics_no_rows:
  assumes "prs_df \<noteq> None \<or> pos_df \<noteq> None"
      and "rows (case prs_df of Some d \<Rightarrow> d | None \<Rightarrow> empty_df) = []"
      and "rows (case pos_df of Some d \<Rightarrow> d | None \<Rightarrow> empty_df) = []"
  shows "compute_metrics lib config prs_df pos_df pr_map po_map cfg =
           Inr (zero_metrics,
                set_column (case prs_df of Some d \<Rightarrow> d | None \<Rightarrow> empty_df) ''Is_Open_PR'' [],
                (case pos_df of Some d \<Rightarrow> d | None \<Rightarrow> empty_df))"
  using assms
  by (auto simp add: compute_metrics_def unify_no_rows add_category_no_rows Let_def df_empty_def
      rows_set_column_Nil bool_sum_no_rows zero_metrics_def)

subsection \<open>Date columns of the annotated tables\<close>

lemma in_range_typed: "date_or_null c \<Longrightarrow> in_range s e c = Inr (date_keep s e c)"
  by (cases c) auto

lemma apply_cells_in_range:
  "\<forall>c \<in> set cs. date_or_null c \<Longrightarrow> apply_cells (in_range s e) cs = Inr (map (date_keep s e) cs)"
  by (induction cs) (auto simp add: in_range_typed)

lemma parse_date_typed: "parse_date lib cfg s = Inr v \<Longrightarrow> date_or_null v"
proof -
  have d: "date_or_null (date_cell d)" for d by (cases d) auto
  assume "parse_date lib cfg s = Inr v"
  then show ?thesis
    by (auto simp add: parse_date_def d map_sum_def split: if_splits sum.splits)
qed

lemma date_typed_set_column_other:
  "date_typed df col \<Longrightarrow> col \<noteq> c \<Longrightarrow> date_typed (set_column df c vs) col"
  by (auto simp add: date_typed_def set_column_def row_get_def dest!: set_zip_leftD)

lemma date_typed_set_column_same:
  "\<forall>v \<in> set vs. date_or_null v \<Longrightarrow> date_typed (set_column df c vs) c"
  by (auto simp add: date_typed_def set_column_def row_get_def dest!: set_zip_rightD)

lemma date_typed_parse_column:
  assumes "parse_column lib cfg df c = Inr df'"
  shows "date_typed df' c" and "date_typed df col \<Longrightarrow> date_typed df' col"
proof -
  show c: "date_typed df' c"
  proof (cases "c \<in> set (columns df)")
    case True
    with assms obtain vs where vs: "apply_cells (parse_date lib cfg) (col_values df c) = Inr vs"
      and df': "df' = set_column df c vs"
      by (auto simp add: parse_column_def split: sum.splits)
    from apply_cells_all [OF vs, of date_or_null] have "\<forall>v \<in> set vs. date_or_null v"
      by (blast intro: parse_date_typed)
    then show ?thesis unfolding df' by (rule date_typed_set_column_same)
  next
    case False
    with assms have "df' = df" by (simp add: parse_column_def)
    with False show ?thesis by (simp add: date_typed_def)
  qed
  show "date_typed df' col" if t: "date_typed df col"
  proof (cases "col = c")
    case True
    with c show ?thesis by simp
  next
    case False
    with assms t show ?thesis
      by (auto simp add: parse_column_def date_typed_set_column_other split: if_splits sum.splits)
  qed
qed

lemma date_typed_empty: "df_empty df \<Longrightarrow> date_typed df col"
  by (auto simp add: df_empty_def date_typed_def)

lemma date_typed_unify:
  assumes "unify lib cfg df mapping required optional = Inr df'"
  shows "date_typed df' ''PR_Date'' \<and> date_typed df' ''PO_Date''"
proof (cases "df_empty df")
  case True
  with assms have "df' = df" by (simp add: unify_def)
  with True show ?thesis by (simp add: date_typed_empty)
next
  case False
  with assms obtain df2 where
    p1: "parse_column lib cfg
           (rename_columns (unify_map mapping (required @ optional)) df) ''PR_Date'' = Inr df2"
    and p2: "parse_column lib cfg df2 ''PO_Date'' = Inr df'"
    by (auto simp add: unify_def Let_def split: sum.splits)
  from date_typed_parse_column(1) [OF p1] have "date_typed df2 ''PR_Date''" .
  with date_typed_parse_column [OF p2] show ?thesis by blast
qed

lemma date_typed_add_category:
  "date_typed df col \<Longrightarrow> col \<noteq> ''Category''
     \<Longrightarrow> date_typed (add_category lib df mapping cm) col"
  by (simp add: add_category_def date_typed_set_column_other)

lemma date_typed_filter_rows: "date_typed df col \<Longrightarrow> date_typed (filter_rows p df) col"
  by (auto simp add: date_typed_def)

text \<open>
  In the tables that \<open>compute_metrics\<close> returns, the date column of each sheet holds
  only \<^verbatim>\<open>Timestamp\<close> and \<^verbatim>\<open>NaT\<close>.
\<close>

lemma compute_metrics_date_typed:
  assumes "compute_metrics lib config prs_df pos_df pr_map po_map cfg = Inr (m, prs, pos)"
  shows "date_typed prs ''PR_Date''" and "date_typed pos ''PO_Date''"
proof -
  from compute_metrics_Inr [OF assms]
  have "date_typed prs ''PR_Date'' \<and> date_typed pos ''PO_Date''"
  proof (elim disjE exE conjE)
    assume "prs = empty_df" "pos = empty_df"
    then show ?thesis by (simp add: date_typed_def empty_df_def)
  next
    fix prs0 pos0 prs1 pos1
    assume u1: "unify lib cfg (case prs_df of Some d \<Rightarrow> d | None \<Rightarrow> empty_df)
              pr_map REQUIRED_PRS_FIELDS OPTIONAL_PRS_FIELDS = Inr prs0"
      and u2: "unify lib cfg (case pos_df of Some d \<Rightarrow> d | None \<Rightarrow> empty_df)
              po_map REQUIRED_POS_FIELDS OPTIONAL_POS_FIELDS = Inr pos0"
      and prs1: "prs1 = add_category lib prs0 pr_map (category_mapping config)"
      and pos1: "pos1 = add_category lib pos0 po_map (category_mapping config)"
      and prs: "prs = set_column prs1 ''Is_Open_PR''
                    (map (\<lambda>r. CBool (is_pr_open lib (map (py_lower lib) (pr_open_statuses config))
                                       (linked_prs lib pos1) r)) (rows prs1))"
      and pos: "pos = (if \<not> df_empty pos1 then
                      set_column pos1 ''Is_Open_Delivery_PO''
                        (map (\<lambda>r. CBool (is_po_open_delivery lib
                                (map (py_lower lib) (po_open_delivery_statuses config)) r)) (rows pos1))
                    else pos1)"
    from date_typed_unify [OF u1] have "date_typed prs1 ''PR_Date''"
      unfolding prs1 by (simp add: date_typed_add_category)
    then have a: "date_typed prs ''PR_Date''"
      unfolding prs by (simp add: date_typed_set_column_other)
    from date_typed_unify [OF u2] have "date_typed pos1 ''PO_Date''"
      unfolding pos1 by (simp add: date_typed_add_category)
    then have b: "date_typed pos ''PO_Date''"
      unfolding pos by (simp add: date_typed_set_column_other)
    from a b show ?thesis ..
  qed
  then show "date_typed prs ''PR_Date''" and "date_typed pos ''PO_Date''" by simp_all
qed

subsection \<open>The two filters as row filters\<close>

lemma in_dates_not_pair: "length ds \<noteq> 2 \<Longrightarrow> in_dates (DateTuple ds) c"
  by (cases "(DateTuple ds, c)" rule: in_dates.cases) auto

lemma within_date_typed:
  assumes "date_typed df col" and "\<forall>d. rng \<noteq> OneDate d"
  shows "within_date df col rng =
           Inr (if col \<in> set (columns df)
                then filter_rows (\<lambda>r. in_dates rng (row_get r col CNaN)) df
                else df)"
proof (cases "col \<in> set (columns df)")
  case False
  then show ?thesis by (simp add: within_date_def)
next
  case col: True
  with assms(1) have cs: "\<forall>c \<in> set (col_values df col). date_or_null c"
    by (simp add: date_typed_def col_values_def)
  show ?thesis
  proof (cases rng)
    case NoDate
    with col show ?thesis by (simp add: within_date_def filter_rows_def)
  next
    case (OneDate d)
    with assms(2) show ?thesis by simp
  next
    case (DateTuple ds)
    show ?thesis
    proof (cases "length ds = 2")
      case False
      with col DateTuple show ?thesis
        by (auto simp add: within_date_def filter_rows_def in_dates_not_pair)
    next
      case True
      then obtain s e where ds: "ds = [s, e]"
        by (cases ds; cases "tl ds") auto
      show ?thesis
      proof (cases "rows df = []")
        case True
        with col DateTuple show ?thesis
          by (simp add: within_date_def df_empty_def filter_rows_def)
      next
        case False
        with col have "\<not> df_empty df" by (auto simp add: df_empty_def)
        with col DateTuple ds show ?thesis
          by (simp add: within_date_def apply_cells_in_range [OF cs] boolean_index_map)
      qed
    qed
  qed
qed

lemma category_filter_rows:
  "category_filter lib cats df =
     (if cats \<noteq> [] \<and> ''Category'' \<in> set (columns df)
      then filter_rows (\<lambda>r. isin lib (row_get r ''Category'' CNaN) (map CStr cats)) df
      else df)"
  by (simp add: category_filter_def isin_filter_def boolean_index_map)

lemma filter_rows_commute:
  "filter_rows p (filter_rows q df) = filter_rows q (filter_rows p df)"
  by (simp add: filter_rows_def conj_commute)

lemma filters_commute_typed:
  assumes "date_typed df col" and "\<forall>d. rng \<noteq> OneDate d"
  shows "category_then_date lib cats col rng df = date_then_category lib cats col rng df"
    and "\<exists>t. date_then_category lib cats col rng df = Inr t"
proof -
  have t: "date_typed (category_filter lib cats df) col"
    using assms(1) by (simp add: category_filter_rows date_typed_filter_rows)
  show "category_then_date lib cats col rng df = date_then_category lib cats col rng df"
    unfolding category_then_date_def date_then_category_def
      within_date_typed [OF t assms(2)] within_date_typed [OF assms]
    by (simp add: category_filter_rows filter_rows_commute)
  show "\<exists>t. date_then_category lib cats col rng df = Inr t"
    unfolding date_then_category_def within_date_typed [OF assms] by simp
qed

subsection \<open>The example workbook\<close>

lemma unify_map_pr:
  "unify_map pr_mapping (REQUIRED_PRS_FIELDS @ OPTIONAL_PRS_FIELDS)
     = [''PR No'' \<mapsto> ''PR_Number'', ''Raised'' \<mapsto> ''PR_Date'', ''State'' \<mapsto> ''PR_Status'',
        ''Material_Group'' \<mapsto> ''Material_Group'']"
  by (simp add: unify_map_def pr_mapping_def REQUIRED_PRS_FIELDS_def OPTIONAL_PRS_FIELDS_def
      mapped_col_def NOT_MAPPED_def)

lemma unify_map_po:
  "unify_map po_mapping (REQUIRED_POS_FIELDS @ OPTIONAL_POS_FIELDS)
     = [''PO No'' \<mapsto> ''PO_Number'', ''Delivery'' \<mapsto> ''Delivery_Status'',
        ''Qty'' \<mapsto> ''PO_Quantity'', ''Received'' \<mapsto> ''GRN_Quantity'', ''Ref'' \<mapsto> ''PR_Number'']"
  by (simp add: unify_map_def po_mapping_def REQUIRED_POS_FIELDS_def OPTIONAL_POS_FIELDS_def
      mapped_col_def NOT_MAPPED_def)

lemma unify_prs_sheet:
  "unify example_lib example_config prs_sheet pr_mapping REQUIRED_PRS_FIELDS OPTIONAL_PRS_FIELDS
     = Inr prs_unified"
  by (auto simp add: unify_def unify_map_pr prs_sheet_def prs_unified_def df_empty_def
      rename_columns_def rename_label_def parse_column_def col_values_def row_get_def
      parse_date_def example_config_def example_lib_def set_column_def fun_eq_iff Let_def)

lemma unify_pos_sheet:
  "unify example_lib example_config pos_sheet po_mapping REQUIRED_POS_FIELDS OPTIONAL_POS_FIELDS
     = Inr pos_unified"
  by (auto simp add: unify_def unify_map_po pos_sheet_def pos_unified_def df_empty_def
      rename_columns_def rename_label_def parse_column_def fun_eq_iff Let_def)

lemma df_empty_empty_df: "df_empty empty_df"
  by (simp add: df_empty_def empty_df_def)

lemma unify_empty_df: "unify lib cfg empty_df mapping req opt = Inr empty_df"
  by (simp add: unify_def df_empty_empty_df)

lemma add_category_empty_df: "add_category lib empty_df mapping cm = empty_df"
  by (simp add: add_category_def df_empty_empty_df)

lemma linked_prs_empty_df: "linked_prs lib empty_df = {}"
  by (simp add: linked_prs_def empty_df_def)

lemma add_category_prs_unified:
  "add_category example_lib prs_unified pr_mapping (category_mapping example_config) =
     set_column prs_unified ''Category'' [CStr ''MRO'', CNone]"
  by (simp add: add_category_def prs_unified_def df_empty_def derive_category_def mapped_col_def
      pr_mapping_def NOT_MAPPED_def row_get_def py_strip_def is_space_def
      WHITESPACE_def utf8_len_def padded_pr2_def example_config_def
      CATEGORIES_def)

lemma add_category_pos_unified:
  "add_category example_lib pos_unified po_mapping (category_mapping example_config) =
     set_column pos_unified ''Category'' [CNone, CNone]"
  by (simp add: add_category_def pos_unified_def df_empty_def derive_category_def mapped_col_def
      po_mapping_def)

lemma linked_prs_example:
  "linked_prs example_lib (set_column pos_unified ''Category'' [CNone, CNone]) = {''PR2''}"
  by (simp add: linked_prs_def set_column_def pos_unified_def col_values_def row_get_def
      notna_def example_lib_def py_strip_def is_space_def
      WHITESPACE_def utf8_len_def padded_pr2_def)

lemma linked_prs_pos_annotated: "linked_prs example_lib pos_annotated = {''PR2''}"
  by (simp add: linked_prs_def pos_annotated_def po7_row_def po8_row_def col_values_def row_get_def
      notna_def example_lib_def py_strip_def is_space_def
      WHITESPACE_def utf8_len_def padded_pr2_def)

lemma compute_metrics_example:
  "compute_metrics example_lib example_config (Some prs_sheet) (Some pos_sheet)
       pr_mapping po_mapping example_config
     = Inr (kpis, prs_annotated, pos_annotated)"
  apply (simp add: compute_metrics_def unify_prs_sheet unify_pos_sheet
      add_category_prs_unified add_category_pos_unified linked_prs_example)
  apply (simp add: set_column_def prs_unified_def pos_unified_def df_empty_def
      is_pr_open_def row_get_def py_lower_def is_ascii_def lower_char_def py_strip_def is_space_def
      WHITESPACE_def utf8_len_def padded_pr2_def
      example_config_def is_po_open_delivery_def outstanding_def outstanding_try_def notna_def
      bool_sum_def col_values_def kpis_def prs_annotated_def pos_annotated_def
      pr1_row_def pr2_row_def po7_row_def po8_row_def example_lib_def)
  done

lemma compute_metrics_example_alone:
  "compute_metrics example_lib example_config (Some prs_sheet) None
       pr_mapping po_mapping example_config
     = Inr (kpis_alone, prs_annotated_alone, empty_df)"
  apply (simp add: compute_metrics_def unify_prs_sheet unify_empty_df
      add_category_prs_unified add_category_empty_df linked_prs_empty_df df_empty_empty_df)
  apply (simp add: set_column_def prs_unified_def df_empty_def empty_df_def
      is_pr_open_def row_get_def py_lower_def is_ascii_def lower_char_def py_strip_def is_space_def
      WHITESPACE_def utf8_len_def padded_pr2_def
      example_config_def bool_sum_def col_values_def kpis_alone_def prs_annotated_alone_def
      pr1_row_def pr2_row_def pr2_row_open_def)
  done

section \<open>The claims\<close>

subsection \<open>Open requisitions\<close>

text \<open>
  Claim C1. A row of the PR table whose trimmed \<^verbatim>\<open>PR_Number\<close> is not among the trimmed
  \<^verbatim>\<open>PR_Number\<close> values of the PO table is open: the classifier holds on it for every
  list of open statuses, and its \<^verbatim>\<open>Is_Open_PR\<close> in the annotated table is \<^verbatim>\<open>True\<close>,
  whatever its \<^verbatim>\<open>PR_Status\<close> is.
\<close>

theorem unlinked_pr_is_open:
  assumes "compute_metrics lib config prs_df pos_df pr_map po_map cfg = Inr (m, prs, pos)"
      and "r \<in> set (rows prs)"
      and "py_strip (py_str lib (row_get r ''PR_Number'' (CStr ''''))) \<notin> linked_prs lib pos"
  shows "is_pr_open lib open_statuses (linked_prs lib pos) r
       \<and> r ''Is_Open_PR'' = Some (CBool True)"
proof
  from assms(3) show "is_pr_open lib open_statuses (linked_prs lib pos) r"
    by (rule is_pr_open_unlinked)
next
  from compute_metrics_Is_Open_PR [OF assms(1,2)] is_pr_open_unlinked [OF assms(3)]
  show "r ''Is_Open_PR'' = Some (CBool True)" by simp
qed

theorem unlinked_pr_is_open_witness:
  "compute_metrics example_lib example_config (Some prs_sheet) (Some pos_sheet)
       pr_mapping po_mapping example_config = Inr (kpis, prs_annotated, pos_annotated)
   \<and> pr1_row \<in> set (rows prs_annotated)
   \<and> py_strip (py_str example_lib (row_get pr1_row ''PR_Number'' (CStr '''')))
        \<notin> linked_prs example_lib pos_annotated
   \<and> py_lower example_lib (py_str example_lib (row_get pr1_row ''PR_Status'' (CStr ''''))) = ''closed''
   \<and> is_pr_open example_lib [] (linked_prs example_lib pos_annotated) pr1_row
   \<and> pr1_row ''Is_Open_PR'' = Some (CBool True)"
proof -
  have h1: "compute_metrics example_lib example_config (Some prs_sheet) (Some pos_sheet)
       pr_mapping po_mapping example_config = Inr (kpis, prs_annotated, pos_annotated)"
    by (rule compute_metrics_example)
  have h2: "pr1_row \<in> set (rows prs_annotated)"
    by (simp add: prs_annotated_def)
  have h3: "py_strip (py_str example_lib (row_get pr1_row ''PR_Number'' (CStr '''')))
        \<notin> linked_prs example_lib pos_annotated"
    by (simp add: linked_prs_pos_annotated pr1_row_def row_get_def py_strip_def is_space_def
      WHITESPACE_def utf8_len_def padded_pr2_def)
  have h4: "py_lower example_lib (py_str example_lib (row_get pr1_row ''PR_Status'' (CStr ''''))) = ''closed''"
    by (simp add: pr1_row_def row_get_def py_lower_def is_ascii_def lower_char_def)
  from unlinked_pr_is_open [OF h1 h2 h3, of "[]"] h1 h2 h3 h4 show ?thesis by blast
qed

text \<open>
  Claim C2. For a row of the PR table whose \<^verbatim>\<open>PR_Status\<close> is "closed" up to case and
  whose trimmed \<^verbatim>\<open>PR_Number\<close> is among the PO table's, \<^verbatim>\<open>Is_Open_PR\<close> is the truth value
  of: that status, up to case, is one of the configured PR-open statuses.
\<close>

theorem closed_linked_pr_open_iff:
  assumes "compute_metrics lib config prs_df pos_df pr_map po_map cfg = Inr (m, prs, pos)"
      and "r \<in> set (rows prs)"
      and "py_lower lib (py_str lib (row_get r ''PR_Status'' (CStr ''''))) = ''closed''"
      and "py_strip (py_str lib (row_get r ''PR_Number'' (CStr ''''))) \<in> linked_prs lib pos"
  shows "r ''Is_Open_PR'' =
           Some (CBool (\<exists>s \<in> set (pr_open_statuses config).
                   py_lower lib s = py_lower lib (py_str lib (row_get r ''PR_Status'' (CStr '''')))))"
  using compute_metrics_Is_Open_PR [OF assms(1,2)] is_pr_open_closed_linked [OF assms(3,4)]
  by simp

theorem closed_linked_pr_open_iff_witness:
  "compute_metrics example_lib example_config (Some prs_sheet) (Some pos_sheet)
       pr_mapping po_mapping example_config = Inr (kpis, prs_annotated, pos_annotated)
   \<and> pr2_row \<in> set (rows prs_annotated)
   \<and> py_lower example_lib (py_str example_lib (row_get pr2_row ''PR_Status'' (CStr ''''))) = ''closed''
   \<and> py_strip (py_str example_lib (row_get pr2_row ''PR_Number'' (CStr '''')))
        \<in> linked_prs example_lib pos_annotated
   \<and> pr2_row ''Is_Open_PR'' = Some (CBool False)"
proof -
  have h1: "compute_metrics example_lib example_config (Some prs_sheet) (Some pos_sheet)
       pr_mapping po_mapping example_config = Inr (kpis, prs_annotated, pos_annotated)"
    by (rule compute_metrics_example)
  have h2: "pr2_row \<in> set (rows prs_annotated)"
    by (simp add: prs_annotated_def)
  have h3: "py_lower example_lib (py_str example_lib (row_get pr2_row ''PR_Status'' (CStr ''''))) = ''closed''"
    by (simp add: pr2_row_def row_get_def py_lower_def is_ascii_def lower_char_def)
  have h4: "py_strip (py_str example_lib (row_get pr2_row ''PR_Number'' (CStr '''')))
        \<in> linked_prs example_lib pos_annotated"
    by (simp add: linked_prs_pos_annotated pr2_row_def row_get_def py_strip_def is_space_def
      WHITESPACE_def utf8_len_def padded_pr2_def)
  have h5: "\<not> (\<exists>s \<in> set (pr_open_statuses example_config).
              py_lower example_lib s = py_lower example_lib (py_str example_lib (row_get pr2_row ''PR_Status'' (CStr ''''))))"
    unfolding h3 by (simp add: example_config_def py_lower_def is_ascii_def lower_char_def)
  from closed_linked_pr_open_iff [OF h1 h2 h3 h4] h1 h2 h3 h4 h5 show ?thesis by simp
qed

text \<open>
  Claim C10. If the PO table has no \<^verbatim>\<open>PR_Number\<close> column, the set of linked PR numbers
  is empty and \<^verbatim>\<open>Is_Open_PR\<close> is \<^verbatim>\<open>True\<close> in every row of the annotated PR table.
\<close>

theorem no_pr_number_column_all_open:
  assumes "compute_metrics lib config prs_df pos_df pr_map po_map cfg = Inr (m, prs, pos)"
      and "''PR_Number'' \<notin> set (columns pos)"
  shows "linked_prs lib pos = {} \<and> (\<forall>r \<in> set (rows prs). r ''Is_Open_PR'' = Some (CBool True))"
proof
  from assms(2) show l: "linked_prs lib pos = {}" by (simp add: linked_prs_def)
  show "\<forall>r \<in> set (rows prs). r ''Is_Open_PR'' = Some (CBool True)"
  proof
    fix r assume r: "r \<in> set (rows prs)"
    have "is_pr_open lib (map (py_lower lib) (pr_open_statuses config)) (linked_prs lib pos) r"
      unfolding l by (rule is_pr_open_unlinked) simp
    with compute_metrics_Is_Open_PR [OF assms(1) r]
    show "r ''Is_Open_PR'' = Some (CBool True)" by simp
  qed
qed

theorem no_pr_number_column_all_open_witness:
  "compute_metrics example_lib example_config (Some prs_sheet) None
       pr_mapping po_mapping example_config = Inr (kpis_alone, prs_annotated_alone, empty_df)
   \<and> ''PR_Number'' \<notin> set (columns empty_df)
   \<and> linked_prs example_lib empty_df = {}
   \<and> map (\<lambda>r. r ''Is_Open_PR'') (rows prs_annotated_alone)
       = [Some (CBool True), Some (CBool True)]"
proof -
  have h1: "compute_metrics example_lib example_config (Some prs_sheet) None
       pr_mapping po_mapping example_config = Inr (kpis_alone, prs_annotated_alone, empty_df)"
    by (rule compute_metrics_example_alone)
  have h2: "''PR_Number'' \<notin> set (columns empty_df)"
    by (simp add: empty_df_def)
  from no_pr_number_column_all_open [OF h1 h2] h1 h2 show ?thesis
    by (simp add: prs_annotated_alone_def)
qed

subsection \<open>Open deliveries\<close>

text \<open>
  Claim C3. If \<^verbatim>\<open>float\<close> converts \<^verbatim>\<open>PO_Quantity\<close> and \<^verbatim>\<open>GRN_Quantity\<close> of a PO row to the
  numbers \<open>x\<close> and \<open>y\<close> (so both are present and not null), then \<^verbatim>\<open>outstanding\<close> is the
  truth value of \<open>x - y > 0\<close>, and when \<open>x - y > 0\<close> \<^verbatim>\<open>is_po_open_delivery\<close> holds for
  every \<^verbatim>\<open>Delivery_Status\<close> and every list of open statuses. If one of the two is absent
  or null, or \<^verbatim>\<open>float\<close> raises on one of them, no exception leaves the function:
  \<^verbatim>\<open>outstanding\<close> is false and the verdict is that of the two status tests. In the
  annotated PO table, \<^verbatim>\<open>Is_Open_Delivery_PO\<close> of a row is this verdict on the row, with
  the configured delivery statuses in lower case.
\<close>

theorem outstanding_quantity_opens_po:
  "(py_float lib (row_get row ''PO_Quantity'' CNone) = Inr (Fin x)
      \<and> py_float lib (row_get row ''GRN_Quantity'' CNone) = Inr (Fin y)
     \<longrightarrow> notna (row_get row ''PO_Quantity'' CNone) \<and> notna (row_get row ''GRN_Quantity'' CNone)
       \<and> (outstanding lib row \<longleftrightarrow> 0 < x - y)
       \<and> (0 < x - y \<longrightarrow> is_po_open_delivery lib open_statuses row))
   \<and> (isna (row_get row ''PO_Quantity'' CNone) \<or> isna (row_get row ''GRN_Quantity'' CNone)
      \<or> isl (py_float lib (row_get row ''PO_Quantity'' CNone))
      \<or> isl (py_float lib (row_get row ''GRN_Quantity'' CNone))
     \<longrightarrow> \<not> outstanding lib row
       \<and> is_po_open_delivery lib open_statuses row =
           (py_lower lib (py_str lib (row_get row ''Delivery_Status'' (CStr ''''))) \<in> set open_statuses
            \<or> py_lower lib (py_str lib (row_get row ''Delivery_Status'' (CStr ''''))) = ''open''))
   \<and> (compute_metrics lib config prs_df pos_df pr_map po_map cfg = Inr (m, prs, pos)
      \<and> row \<in> set (rows pos) \<and> columns pos \<noteq> []
     \<longrightarrow> row ''Is_Open_Delivery_PO'' =
           Some (CBool (is_po_open_delivery lib
                          (map (py_lower lib) (po_open_delivery_statuses config)) row)))"
proof (intro conjI impI)
  assume f: "py_float lib (row_get row ''PO_Quantity'' CNone) = Inr (Fin x)
      \<and> py_float lib (row_get row ''GRN_Quantity'' CNone) = Inr (Fin y)"
  from f show q: "notna (row_get row ''PO_Quantity'' CNone)"
    by (cases "row_get row ''PO_Quantity'' CNone") (simp_all add: notna_def)
  from f show g: "notna (row_get row ''GRN_Quantity'' CNone)"
    by (cases "row_get row ''GRN_Quantity'' CNone") (simp_all add: notna_def)
  from f q g show o: "outstanding lib row \<longleftrightarrow> 0 < x - y"
    by (simp add: outstanding_eq outstanding_try_def)
  assume "0 < x - y"
  with o show "is_po_open_delivery lib open_statuses row"
    by (simp add: is_po_open_delivery_def)
next
  assume "isna (row_get row ''PO_Quantity'' CNone) \<or> isna (row_get row ''GRN_Quantity'' CNone)
      \<or> isl (py_float lib (row_get row ''PO_Quantity'' CNone))
      \<or> isl (py_float lib (row_get row ''GRN_Quantity'' CNone))"
  then show no: "\<not> outstanding lib row"
    by (auto simp add: outstanding_eq outstanding_try_def notna_def split: sum.splits)
  then show "is_po_open_delivery lib open_statuses row =
           (py_lower lib (py_str lib (row_get row ''Delivery_Status'' (CStr ''''))) \<in> set open_statuses
            \<or> py_lower lib (py_str lib (row_get row ''Delivery_Status'' (CStr ''''))) = ''open'')"
    by (simp add: is_po_open_delivery_def Let_def)
next
  assume "compute_metrics lib config prs_df pos_df pr_map po_map cfg = Inr (m, prs, pos)
      \<and> row \<in> set (rows pos) \<and> columns pos \<noteq> []"
  then show "row ''Is_Open_Delivery_PO'' =
           Some (CBool (is_po_open_delivery lib
                          (map (py_lower lib) (po_open_delivery_statuses config)) row))"
    by (auto intro: compute_metrics_Is_Open_Delivery_PO)
qed

theorem outstanding_quantity_opens_po_witness:
  "py_float example_lib (row_get po7_row ''PO_Quantity'' CNone) = Inr (Fin 100)
   \<and> py_float example_lib (row_get po7_row ''GRN_Quantity'' CNone) = Inr (Fin 40)
   \<and> outstanding example_lib po7_row
   \<and> is_po_open_delivery example_lib [''open'', ''partial'', ''delayed''] po7_row
   \<and> py_float example_lib (row_get po_row_negative ''PO_Quantity'' CNone) = Inr (Fin (- 1))
   \<and> py_float example_lib (row_get po_row_negative ''GRN_Quantity'' CNone) = Inr (Fin (- 2))
   \<and> outstanding example_lib po_row_negative
   \<and> is_po_open_delivery example_lib [] po_row_negative
   \<and> py_float example_lib (row_get po_row_received ''PO_Quantity'' CNone) = Inr (Fin 5)
   \<and> py_float example_lib (row_get po_row_received ''GRN_Quantity'' CNone) = Inr (Fin 5)
   \<and> \<not> outstanding example_lib po_row_received
   \<and> isl (py_float example_lib (row_get po8_row ''PO_Quantity'' CNone))
   \<and> \<not> outstanding example_lib po8_row
   \<and> \<not> is_po_open_delivery example_lib [''open'', ''partial'', ''delayed''] po8_row
   \<and> compute_metrics example_lib example_config (Some prs_sheet) (Some pos_sheet)
         pr_mapping po_mapping example_config = Inr (kpis, prs_annotated, pos_annotated)
   \<and> po7_row \<in> set (rows pos_annotated) \<and> columns pos_annotated \<noteq> []
   \<and> map (py_lower example_lib) (po_open_delivery_statuses example_config)
        = [''open'', ''partial'', ''delayed'']
   \<and> po7_row ''Is_Open_Delivery_PO'' = Some (CBool True)"
proof -
  have h1: "py_float example_lib (row_get po7_row ''PO_Quantity'' CNone) = Inr (Fin 100)
      \<and> py_float example_lib (row_get po7_row ''GRN_Quantity'' CNone) = Inr (Fin 40)"
    by (simp add: po7_row_def row_get_def example_lib_def)
  have n1: "py_float example_lib (row_get po_row_negative ''PO_Quantity'' CNone) = Inr (Fin (- 1))
      \<and> py_float example_lib (row_get po_row_negative ''GRN_Quantity'' CNone) = Inr (Fin (- 2))"
    by (simp add: po_row_negative_def row_get_def example_lib_def)
  have r1: "py_float example_lib (row_get po_row_received ''PO_Quantity'' CNone) = Inr (Fin 5)
      \<and> py_float example_lib (row_get po_row_received ''GRN_Quantity'' CNone) = Inr (Fin 5)"
    by (simp add: po_row_received_def row_get_def example_lib_def)
  have h2: "isl (py_float example_lib (row_get po8_row ''PO_Quantity'' CNone))"
    by (simp add: po8_row_def row_get_def example_lib_def)
  have h3: "\<not> (py_lower example_lib (py_str example_lib (row_get po8_row ''Delivery_Status'' (CStr '''')))
               \<in> set [''open'', ''partial'', ''delayed'']
             \<or> py_lower example_lib (py_str example_lib (row_get po8_row ''Delivery_Status'' (CStr '''')))
               = ''open'')"
    by (simp add: po8_row_def row_get_def py_lower_def is_ascii_def lower_char_def)
  have h4: "compute_metrics example_lib example_config (Some prs_sheet) (Some pos_sheet)
         pr_mapping po_mapping example_config = Inr (kpis, prs_annotated, pos_annotated)
      \<and> po7_row \<in> set (rows pos_annotated) \<and> columns pos_annotated \<noteq> []"
    by (simp add: compute_metrics_example pos_annotated_def)
  have h5: "map (py_lower example_lib) (po_open_delivery_statuses example_config)
              = [''open'', ''partial'', ''delayed'']"
    by (simp add: example_config_def py_lower_def is_ascii_def lower_char_def)
  have h6: "po7_row ''Is_Open_Delivery_PO'' = Some (CBool True)"
    by (simp add: po7_row_def)
  have c1: "outstanding example_lib po7_row
      \<and> is_po_open_delivery example_lib [''open'', ''partial'', ''delayed''] po7_row
      \<and> po7_row ''Is_Open_Delivery_PO'' =
           Some (CBool (is_po_open_delivery example_lib
                          (map (py_lower example_lib) (po_open_delivery_statuses example_config))
                          po7_row))"
    using outstanding_quantity_opens_po
         [where row = po7_row and lib = example_lib and x = 100 and y = 40
            and open_statuses = "[''open'', ''partial'', ''delayed'']"
            and config = example_config and cfg = example_config
            and prs_df = "Some prs_sheet" and pos_df = "Some pos_sheet"
            and pr_map = pr_mapping and po_map = po_mapping
            and m = kpis and prs = prs_annotated and pos = pos_annotated]
       h1 h4
    by simp
  have c2: "outstanding example_lib po_row_negative
      \<and> is_po_open_delivery example_lib [] po_row_negative"
    using outstanding_quantity_opens_po
         [where row = po_row_negative and lib = example_lib and x = "- 1" and y = "- 2"
            and open_statuses = "[]"]
       n1
    by simp
  have c3: "\<not> outstanding example_lib po_row_received"
    using outstanding_quantity_opens_po
         [where row = po_row_received and lib = example_lib and x = 5 and y = 5]
       r1
    by simp
  have c4: "\<not> outstanding example_lib po8_row
      \<and> \<not> is_po_open_delivery example_lib [''open'', ''partial'', ''delayed''] po8_row"
    using outstanding_quantity_opens_po
         [where row = po8_row and lib = example_lib
            and open_statuses = "[''open'', ''partial'', ''delayed'']"]
       h2 h3
    by blast
  from c1 c2 c3 c4 h1 n1 r1 h2 h4 h5 h6 show ?thesis by blast
qed

text \<open>
  Claim C7, as the code has it. Neither classifier raises when a field it reads is
  absent from the row. An absent \<^verbatim>\<open>PO_Quantity\<close> or \<^verbatim>\<open>GRN_Quantity\<close> makes \<^verbatim>\<open>outstanding\<close>
  false. An absent \<^verbatim>\<open>Delivery_Status\<close> is read as the empty string: it is not "open", and
  it counts only if the empty string is itself a configured status. An absent
  \<^verbatim>\<open>PR_Status\<close> is read as the empty string, which is not "closed", so the PR row is
  open. An absent \<^verbatim>\<open>PR_Number\<close> is read as the empty string, which is linked only if
  the empty string is among the PO table's numbers.
\<close>

theorem absent_lifecycle_fields:
  "(row ''PO_Quantity'' = None \<or> row ''GRN_Quantity'' = None \<longrightarrow> \<not> outstanding lib row)
   \<and> (row ''Delivery_Status'' = None \<longrightarrow>
        is_po_open_delivery lib po_open row = (outstanding lib row \<or> '''' \<in> set po_open))
   \<and> (row ''PR_Status'' = None \<longrightarrow> is_pr_open lib pr_open linked row)
   \<and> (row ''PR_Number'' = None \<longrightarrow>
        is_pr_open lib pr_open linked row =
          (py_lower lib (py_str lib (row_get row ''PR_Status'' (CStr ''''))) \<noteq> ''closed''
           \<or> '''' \<notin> linked
           \<or> py_lower lib (py_str lib (row_get row ''PR_Status'' (CStr ''''))) \<in> set pr_open))"
proof (intro conjI impI)
  assume "row ''PO_Quantity'' = None \<or> row ''GRN_Quantity'' = None"
  then show "\<not> outstanding lib row" by (rule outstanding_absent)
next
  assume "row ''Delivery_Status'' = None"
  then show "is_po_open_delivery lib po_open row = (outstanding lib row \<or> '''' \<in> set po_open)"
    by (simp add: is_po_open_delivery_def row_get_def py_lower_def is_ascii_def)
next
  assume "row ''PR_Status'' = None"
  then show "is_pr_open lib pr_open linked row"
    by (simp add: is_pr_open_def row_get_def py_lower_def is_ascii_def)
next
  assume "row ''PR_Number'' = None"
  then show "is_pr_open lib pr_open linked row =
          (py_lower lib (py_str lib (row_get row ''PR_Status'' (CStr ''''))) \<noteq> ''closed''
           \<or> '''' \<notin> linked
           \<or> py_lower lib (py_str lib (row_get row ''PR_Status'' (CStr ''''))) \<in> set pr_open)"
    by (simp add: is_pr_open_def row_get_def py_strip_def Let_def)
qed

theorem absent_lifecycle_fields_witness:
  "pr_row_no_status ''PO_Quantity'' = None
   \<and> \<not> outstanding example_lib pr_row_no_status
   \<and> pr_row_no_status ''Delivery_Status'' = None
   \<and> \<not> is_po_open_delivery example_lib [''open'', ''partial'', ''delayed''] pr_row_no_status
   \<and> pr_row_no_status ''PR_Status'' = None
   \<and> is_pr_open example_lib [''open''] {''PR2''} pr_row_no_status
   \<and> Map.empty ''PR_Number'' = (None :: cell option)
   \<and> is_pr_open example_lib [''open''] {''PR2''} Map.empty"
proof -
  have h1: "pr_row_no_status ''PO_Quantity'' = None"
    and h2: "pr_row_no_status ''Delivery_Status'' = None"
    and h3: "pr_row_no_status ''PR_Status'' = None"
    by (simp_all add: pr_row_no_status_def)
  from absent_lifecycle_fields
         [where row = pr_row_no_status and lib = example_lib
            and po_open = "[''open'', ''partial'', ''delayed'']" and pr_open = "[''open'']"
            and linked = "{''PR2''}"]
       absent_lifecycle_fields
         [where row = Map.empty and lib = example_lib
            and po_open = "[''open'', ''partial'', ''delayed'']" and pr_open = "[''open'']"
            and linked = "{''PR2''}"]
       h1 h2 h3
  show ?thesis by simp
qed

text \<open>
  The claim as the specification states it fails: a PR row without \<^verbatim>\<open>PR_Status\<close>, whose
  number is linked and with no open statuses configured, is marked open, and the test
  on the status is the only one that can hold for it.
\<close>

theorem absent_pr_status_counterexample:
  "pr_row_no_status ''PR_Status'' = None
   \<and> py_strip (py_str example_lib (row_get pr_row_no_status ''PR_Number'' (CStr '''')))
        \<in> linked_prs example_lib pos_annotated
   \<and> is_pr_open example_lib [] (linked_prs example_lib pos_annotated) pr_row_no_status"
  by (simp add: pr_row_no_status_def linked_prs_pos_annotated is_pr_open_def row_get_def
      py_strip_def is_space_def
      WHITESPACE_def utf8_len_def padded_pr2_def py_lower_def is_ascii_def)

subsection \<open>The category resolver\<close>

text \<open>
  Claim C4. \<open>derive_category\<close> follows the tiers in order. Its result is that of the
  tier policy: the trimmed value of the mapped category column when that is one of the
  four labels, and otherwise the label of the first of \<^verbatim>\<open>Material_Group\<close>,
  \<^verbatim>\<open>Cost_Center\<close>, \<^verbatim>\<open>Item_Type\<close> whose trimmed value the lookup table sends to one of the
  four labels, whatever the later fields give. When the first tier gives a label, the
  result is that label for every lookup table: the table is not consulted.
\<close>

theorem derive_category_tiers:
  "derive_category lib row mapping table = category_by_tiers lib row mapping table
   \<and> (explicit_label lib row mapping = Some label
        \<longrightarrow> derive_category lib row mapping table' = Some label)"
  by (auto simp add: derive_category_def category_by_tiers_def explicit_label_def trimmed_def
      derive_from_keys_first Let_def split: option.splits if_splits)

theorem derive_category_tiers_witness:
  "explicit_label example_lib cat_row_explicit cat_mapping = Some ''Capex''
   \<and> derive_category example_lib cat_row_explicit cat_mapping cat_table = Some ''Capex''
   \<and> derive_category example_lib cat_row_explicit cat_mapping Map.empty = Some ''Capex''
   \<and> explicit_label example_lib cat_row_lookup cat_mapping = None
   \<and> lookup_label example_lib cat_row_lookup cat_mapping cat_table ''Material_Group'' = Some ''MRO''
   \<and> lookup_label example_lib cat_row_lookup cat_mapping cat_table ''Cost_Center'' = Some ''Services''
   \<and> derive_category example_lib cat_row_lookup cat_mapping cat_table = Some ''MRO''"
proof -
  have e1: "explicit_label example_lib cat_row_explicit cat_mapping = Some ''Capex''"
    by (simp add: explicit_label_def mapped_col_def cat_mapping_def NOT_MAPPED_def trimmed_def
        cat_row_explicit_def row_get_def py_strip_def is_space_def
      WHITESPACE_def utf8_len_def padded_capex_def CATEGORIES_def)
  have e2: "explicit_label example_lib cat_row_lookup cat_mapping = None"
    by (simp add: explicit_label_def mapped_col_def cat_mapping_def NOT_MAPPED_def trimmed_def
        cat_row_lookup_def row_get_def py_strip_def is_space_def
      WHITESPACE_def utf8_len_def padded_capex_def CATEGORIES_def)
  have l1: "lookup_label example_lib cat_row_lookup cat_mapping cat_table ''Material_Group''
              = Some ''MRO''"
    by (simp add: lookup_label_def mapped_col_def cat_mapping_def NOT_MAPPED_def trimmed_def
        cat_row_lookup_def row_get_def py_strip_def is_space_def
      WHITESPACE_def utf8_len_def padded_capex_def cat_table_def CATEGORIES_def)
  have l2: "lookup_label example_lib cat_row_lookup cat_mapping cat_table ''Cost_Center''
              = Some ''Services''"
    by (simp add: lookup_label_def mapped_col_def cat_mapping_def NOT_MAPPED_def trimmed_def
        cat_row_lookup_def row_get_def py_strip_def is_space_def
      WHITESPACE_def utf8_len_def padded_capex_def cat_table_def CATEGORIES_def)
  from derive_category_tiers
         [where lib = example_lib and row = cat_row_explicit and mapping = cat_mapping
            and table = cat_table and table' = Map.empty and label = "''Capex''"]
       derive_category_tiers
         [where lib = example_lib and row = cat_row_explicit and mapping = cat_mapping
            and table = cat_table and table' = cat_table and label = "''Capex''"]
       derive_category_tiers
         [where lib = example_lib and row = cat_row_lookup and mapping = cat_mapping
            and table = cat_table and table' = cat_table and label = "''MRO''"]
       e1 e2 l1 l2
  show ?thesis
    by (simp add: category_by_tiers_def first_label_def)
qed

text \<open>
  Claim C5. For every row, mapping and lookup table the result of \<open>derive_category\<close> is
  one of the four labels or \<^verbatim>\<open>None\<close>, the marker of an unknown category; a value of the
  category column or of the lookup table outside the four labels is never returned.
\<close>

theorem derive_category_range:
  "derive_category lib row mapping cfg_mapping
     \<in> {Some ''MRO'', Some ''Services'', Some ''Capex'', Some ''PCM'', None}"
proof (cases "derive_category lib row mapping cfg_mapping")
  case None
  then show ?thesis by simp
next
  case (Some c)
  then have "c \<in> set CATEGORIES" by (rule derive_category_in_CATEGORIES)
  with Some show ?thesis by (auto simp add: CATEGORIES_def)
qed

theorem derive_category_range_witness:
  "row_get cat_row_invalid ''Cat'' (CStr '''') = CStr ''Other''
   \<and> cat_table (py_strip (py_str example_lib (row_get cat_row_invalid ''MG'' (CStr '''')))) = Some ''Steel''
   \<and> derive_category example_lib cat_row_invalid cat_mapping cat_table = None"
proof -
  have "derive_category example_lib cat_row_invalid cat_mapping cat_table \<noteq> Some ''Other''"
    and "derive_category example_lib cat_row_invalid cat_mapping cat_table \<noteq> Some ''Steel''"
    using derive_category_range [of example_lib cat_row_invalid cat_mapping cat_table]
    by auto
  then show ?thesis
    by (simp add: derive_category_def mapped_col_def cat_mapping_def NOT_MAPPED_def
        cat_row_invalid_def row_get_def py_strip_def is_space_def
      WHITESPACE_def utf8_len_def padded_capex_def cat_table_def CATEGORIES_def)
qed

subsection \<open>Metrics of tables without rows\<close>

text \<open>
  Claim C6, as the code has it. No exception leaves \<open>compute_metrics\<close> when neither
  table has a row. When both tables are absent the function returns the empty
  dictionary, not a record of four zeros, with two empty tables; each count that the
  page reads from it with the default 0 is 0. When a table is given and each table is
  absent or has no rows, the record holds the four counts, all 0, and the two
  annotated tables have no rows.
\<close>

theorem compute_metrics_without_rows:
  "compute_metrics lib config None None pr_map po_map cfg = Inr (Map.empty, empty_df, empty_df)
   \<and> metrics_get Map.empty key = 0
   \<and> ((prs_df \<noteq> None \<or> pos_df \<noteq> None)
        \<and> (\<forall>d. prs_df = Some d \<longrightarrow> rows d = [])
        \<and> (\<forall>d. pos_df = Some d \<longrightarrow> rows d = [])
      \<longrightarrow> (\<exists>prs pos.
             compute_metrics lib config prs_df pos_df pr_map po_map cfg
               = Inr (zero_metrics, prs, pos)
             \<and> rows prs = [] \<and> rows pos = []))"
proof (intro conjI impI)
  show "compute_metrics lib config None None pr_map po_map cfg = Inr (Map.empty, empty_df, empty_df)"
    by (rule compute_metrics_absent)
  show "metrics_get Map.empty key = 0"
    by (simp add: metrics_get_def)
next
  assume a: "(prs_df \<noteq> None \<or> pos_df \<noteq> None)
        \<and> (\<forall>d. prs_df = Some d \<longrightarrow> rows d = [])
        \<and> (\<forall>d. pos_df = Some d \<longrightarrow> rows d = [])"
  then have r1: "rows (case prs_df of Some d \<Rightarrow> d | None \<Rightarrow> empty_df) = []"
    and r2: "rows (case pos_df of Some d \<Rightarrow> d | None \<Rightarrow> empty_df) = []"
    by (auto simp add: empty_df_def split: option.splits)
  from a have "prs_df \<noteq> None \<or> pos_df \<noteq> None" by simp
  from compute_metrics_no_rows [OF this r1 r2] r1 r2
  show "\<exists>prs pos.
          compute_metrics lib config prs_df pos_df pr_map po_map cfg = Inr (zero_metrics, prs, pos)
          \<and> rows prs = [] \<and> rows pos = []"
    by (simp add: rows_set_column_Nil)
qed

theorem compute_metrics_without_rows_witness:
  "compute_metrics example_lib example_config None None pr_mapping po_mapping example_config
     = Inr (Map.empty, empty_df, empty_df)
   \<and> metrics_get Map.empty ''Total PRs'' = 0
   \<and> compute_metrics example_lib example_config
        (Some \<lparr>columns = [''PR No'', ''State''], rows = []\<rparr>) None
        pr_mapping po_mapping example_config
     = Inr (zero_metrics, \<lparr>columns = [''PR No'', ''State'', ''Is_Open_PR''], rows = []\<rparr>, empty_df)"
proof -
  have "\<exists>prs pos.
          compute_metrics example_lib example_config
            (Some \<lparr>columns = [''PR No'', ''State''], rows = []\<rparr>) None
            pr_mapping po_mapping example_config = Inr (zero_metrics, prs, pos)
          \<and> rows prs = [] \<and> rows pos = []"
    using compute_metrics_without_rows
            [where lib = example_lib and config = example_config and cfg = example_config
               and pr_map = pr_mapping and po_map = po_mapping
               and prs_df = "Some \<lparr>columns = [''PR No'', ''State''], rows = []\<rparr>"
               and pos_df = None]
    by simp
  moreover have "compute_metrics example_lib example_config
        (Some \<lparr>columns = [''PR No'', ''State''], rows = []\<rparr>) None
        pr_mapping po_mapping example_config
     = Inr (zero_metrics, \<lparr>columns = [''PR No'', ''State'', ''Is_Open_PR''], rows = []\<rparr>, empty_df)"
    by (simp add: compute_metrics_no_rows empty_df_def set_column_def)
  ultimately show ?thesis
    using compute_metrics_without_rows
            [where lib = example_lib and config = example_config and cfg = example_config
               and pr_map = pr_mapping and po_map = po_mapping and key = "''Total PRs''"]
    by simp
qed

text \<open>
  The claim as the specification states it fails when both tables are absent: the
  record that \<open>compute_metrics\<close> returns has no count \<^verbatim>\<open>Total PRs\<close>.
\<close>

theorem compute_metrics_absent_counterexample:
  "compute_metrics example_lib example_config None None pr_mapping po_mapping example_config
     = Inr (Map.empty, empty_df, empty_df)
   \<and> (Map.empty :: metrics) ''Total PRs'' \<noteq> Some 0
   \<and> (Map.empty :: metrics) \<noteq> zero_metrics"
proof -
  have "zero_metrics ''Total PRs'' = Some 0"
    by (simp add: zero_metrics_def)
  then have "(Map.empty :: metrics) \<noteq> zero_metrics"
    by (metis option.distinct(1))
  then show ?thesis
    by (simp add: compute_metrics_def)
qed

subsection \<open>Filters\<close>

text \<open>
  Claim C8. With no date range (the widget gives \<^verbatim>\<open>None\<close> or an empty tuple) and no
  category, vendor, buyer or status selected, the filters return both tables as they
  are: the same rows in the same order.
\<close>

theorem apply_filters_unset:
  assumes "pr_date_rng \<in> {NoDate, DateTuple []}" and "po_date_rng \<in> {NoDate, DateTuple []}"
  shows "apply_filters lib prs pos pr_date_rng po_date_rng [] [] [] [] [] = Inr (prs, pos)"
  using assms
  by (auto simp add: apply_filters_def within_date_def category_filter_def member_filter_def)

theorem apply_filters_unset_witness:
  "NoDate \<in> {NoDate, DateTuple []} \<and> DateTuple [] \<in> {NoDate, DateTuple []}
   \<and> apply_filters example_lib prs_annotated pos_annotated NoDate (DateTuple []) [] [] [] [] []
       = Inr (prs_annotated, pos_annotated)"
proof -
  have h1: "NoDate \<in> {NoDate, DateTuple []}" and h2: "DateTuple [] \<in> {NoDate, DateTuple []}"
    by simp_all
  from apply_filters_unset [OF h1 h2] h1 h2 show ?thesis by blast
qed

text \<open>
  Claim C9. On the annotated tables that \<open>compute_metrics\<close> returns, and for a date
  range that is \<^verbatim>\<open>None\<close> or a tuple of dates, the category filter followed by the date
  filter gives the same table as the date filter followed by the category filter, and
  neither order raises; the two results are equal, so they have the same rows.
\<close>

theorem category_and_date_filters_commute:
  assumes "compute_metrics lib config prs_df pos_df pr_map po_map cfg = Inr (m, prs, pos)"
      and "\<forall>d. rng \<noteq> OneDate d"
  shows "category_then_date lib cats ''PR_Date'' rng prs = date_then_category lib cats ''PR_Date'' rng prs
       \<and> category_then_date lib cats ''PO_Date'' rng pos = date_then_category lib cats ''PO_Date'' rng pos
       \<and> (\<exists>t. date_then_category lib cats ''PR_Date'' rng prs = Inr t)
       \<and> (\<exists>t. date_then_category lib cats ''PO_Date'' rng pos = Inr t)"
  using filters_commute_typed [OF compute_metrics_date_typed(1) [OF assms(1)] assms(2)]
    filters_commute_typed [OF compute_metrics_date_typed(2) [OF assms(1)] assms(2)]
  by simp

theorem category_and_date_filters_commute_witness:
  "compute_metrics example_lib example_config (Some prs_sheet) (Some pos_sheet)
       pr_mapping po_mapping example_config = Inr (kpis, prs_annotated, pos_annotated)
   \<and> (\<forall>d. DateTuple [10, 25] \<noteq> OneDate d)
   \<and> category_then_date example_lib [''MRO'', ''Capex''] ''PR_Date'' (DateTuple [10, 25]) prs_annotated
       = Inr (prs_annotated\<lparr>rows := [pr1_row]\<rparr>)
   \<and> date_then_category example_lib [''MRO'', ''Capex''] ''PR_Date'' (DateTuple [10, 25]) prs_annotated
       = Inr (prs_annotated\<lparr>rows := [pr1_row]\<rparr>)"
proof -
  have h1: "compute_metrics example_lib example_config (Some prs_sheet) (Some pos_sheet)
       pr_mapping po_mapping example_config = Inr (kpis, prs_annotated, pos_annotated)"
    by (rule compute_metrics_example)
  have h2: "\<forall>d. DateTuple [10, 25] \<noteq> OneDate d"
    by simp
  have d: "date_then_category example_lib [''MRO'', ''Capex''] ''PR_Date'' (DateTuple [10, 25])
             prs_annotated = Inr (prs_annotated\<lparr>rows := [pr1_row]\<rparr>)"
    by (simp add: date_then_category_def within_date_def df_empty_def prs_annotated_def
        col_values_def row_get_def pr1_row_def pr2_row_def boolean_index_def
        category_filter_def isin_filter_def example_lib_def)
  from category_and_date_filters_commute [OF h1 h2, of "[''MRO'', ''Capex'']"] h1 h2 d
  show ?thesis by simp
qed

end
